theory Spec2Isabelle
  imports Complex_Main
begin

section \<open>Python values\<close>

text \<open>
  The scripts handle JSON-like values: the payloads of the statistics API, the rows of
  the warehouse and the records they build. A dictionary is an association list read
  with \<open>map_of\<close> (a Python dictionary has each key once); a tuple is a \<open>PList\<close>. A float is
  the real number it denotes: the scripts do no arithmetic on floats, they only convert
  and pass them on, and rounding, nan and the infinities are outside the model.
\<close>

datatype pyval =
    PNone
  | PBool bool
  | PInt int
  | PFloat real
  | PStr string
  | PList "pyval list"
  | PDict "(string \<times> pyval) list"

datatype error =
    AttributeError
  | TypeError
  | ValueError
  | KeyError
  | IndexError
  | OverflowError
  | External string

text \<open>Sequencing of computations that may raise: the first exception wins.\<close>

definition ebind :: "error + 'a \<Rightarrow> ('a \<Rightarrow> error + 'b) \<Rightarrow> error + 'b" where
  "ebind m f = (case m of Inl e \<Rightarrow> Inl e | Inr x \<Rightarrow> f x)"

text \<open>Truth value of \<open>if v\<close> / \<open>if not v\<close>.\<close>

fun truthy :: "pyval \<Rightarrow> bool" where
  "truthy PNone = False"
| "truthy (PBool b) = b"
| "truthy (PInt i) = (i \<noteq> 0)"
| "truthy (PFloat r) = (r \<noteq> 0)"
| "truthy (PStr s) = (s \<noteq> [])"
| "truthy (PList xs) = (xs \<noteq> [])"
| "truthy (PDict kvs) = (kvs \<noteq> [])"

text \<open>\<open>v.get(k, d)\<close>: only a dictionary has the method.\<close>

fun py_get :: "pyval \<Rightarrow> string \<Rightarrow> pyval \<Rightarrow> error + pyval" where
  "py_get (PDict kvs) k d = Inr (case map_of kvs k of None \<Rightarrow> d | Some v \<Rightarrow> v)"
| "py_get _ k d = Inl AttributeError"

text \<open>\<open>v[k]\<close> with a string key, and \<open>v[i]\<close> with a non-negative literal index.\<close>

fun py_item :: "pyval \<Rightarrow> string \<Rightarrow> error + pyval" where
  "py_item (PDict kvs) k = (case map_of kvs k of None \<Rightarrow> Inl KeyError | Some v \<Rightarrow> Inr v)"
| "py_item _ k = Inl TypeError"

fun py_index :: "pyval \<Rightarrow> nat \<Rightarrow> error + pyval" where
  "py_index (PList xs) i = (if i < length xs then Inr (xs ! i) else Inl IndexError)"
| "py_index (PStr s) i = (if i < length s then Inr (PStr [s ! i]) else Inl IndexError)"
| "py_index (PDict kvs) i = Inl KeyError"
| "py_index _ i = Inl TypeError"

text \<open>The elements a \<open>for\<close> loop or an unpacking sees.\<close>

fun py_iter :: "pyval \<Rightarrow> error + pyval list" where
  "py_iter (PList xs) = Inr xs"
| "py_iter (PDict kvs) = Inr (map (\<lambda>kv. PStr (fst kv)) kvs)"
| "py_iter (PStr s) = Inr (map (\<lambda>c. PStr [c]) s)"
| "py_iter _ = Inl TypeError"

text \<open>
  \<open>int(v)\<close> and \<open>float(v)\<close>. Reading a number from a string is Python's parser, which the
  model takes as a parameter (\<open>None\<close> is the \<open>ValueError\<close> of a string that is no number).
  \<open>int\<close> of a float truncates towards zero; \<open>float\<close> of an integer that no double can
  hold is an \<open>OverflowError\<close>.
\<close>

fun py_int :: "(string \<Rightarrow> int option) \<Rightarrow> pyval \<Rightarrow> error + int" where
  "py_int p (PInt i) = Inr i"
| "py_int p (PBool b) = Inr (if b then 1 else 0)"
| "py_int p (PFloat r) = Inr (if 0 \<le> r then \<lfloor>r\<rfloor> else \<lceil>r\<rceil>)"
| "py_int p (PStr s) = (case p s of None \<Rightarrow> Inl ValueError | Some i \<Rightarrow> Inr i)"
| "py_int p _ = Inl TypeError"

fun py_float :: "(string \<Rightarrow> real option) \<Rightarrow> pyval \<Rightarrow> error + real" where
  "py_float q (PFloat r) = Inr r"
| "py_float q (PInt i) =
     (if \<bar>i\<bar> < 2 ^ 1024 - 2 ^ 970 then Inr (of_int i) else Inl OverflowError)"
| "py_float q (PBool b) = Inr (if b then 1 else 0)"
| "py_float q (PStr s) = (case q s of None \<Rightarrow> Inl ValueError | Some r \<Rightarrow> Inr r)"
| "py_float q _ = Inl TypeError"

section \<open>The record transformers of get\_mlb\_data.py\<close>

text \<open>The expression \<open>v.get(j1, {}). ... .get(jn, {}).get(k, d)\<close>.\<close>

fun get_chain :: "pyval \<Rightarrow> string list \<Rightarrow> string \<Rightarrow> pyval \<Rightarrow> error + pyval" where
  "get_chain v [] k d = py_get v k d"
| "get_chain v (j # js) k d =
     (case py_get v j (PDict []) of Inl e \<Rightarrow> Inl e | Inr v' \<Rightarrow> get_chain v' js k d)"

text \<open>
  \<open>next((item.get("value", "Unknown") for item in ... if item.get("label") == "T"),
  "Unknown")\<close>: the generator is lazy, so the items after the first one labelled T are
  never looked at.
\<close>

fun first_time :: "pyval list \<Rightarrow> error + pyval" where
  "first_time [] = Inr (PStr ''Unknown'')"
| "first_time (item # items) =
     (case py_get item ''label'' PNone of
        Inl e \<Rightarrow> Inl e
      | Inr l \<Rightarrow>
          if l = PStr ''T'' then py_get item ''value'' (PStr ''Unknown'')
          else first_time items)"

definition time_value :: "pyval \<Rightarrow> error + pyval" where
  "time_value boxscore =
     ebind (py_get boxscore ''gameBoxInfo'' (PList [])) (\<lambda>info.
     ebind (py_iter info) first_time)"

text \<open>Lines 40 to 69 of \<open>fetch_game_score\<close>, in the order Python evaluates them.\<close>

definition transform_score :: "(string \<Rightarrow> int option) \<Rightarrow> string \<Rightarrow> pyval \<Rightarrow> error + pyval" where
  "transform_score p game_id boxscore =
     ebind (get_chain boxscore [''home'', ''teamStats'', ''batting''] ''runs'' (PInt 0)) (\<lambda>home_score.
     ebind (get_chain boxscore [''away'', ''teamStats'', ''batting''] ''runs'' (PInt 0)) (\<lambda>away_score.
     ebind (get_chain boxscore [''teamInfo'', ''home''] ''teamName'' (PStr ''Unknown'')) (\<lambda>home_team.
     ebind (get_chain boxscore [''teamInfo'', ''away''] ''teamName'' (PStr ''Unknown'')) (\<lambda>away_team.
     ebind (get_chain boxscore [''teamInfo'', ''home''] ''id'' (PInt 0)) (\<lambda>home_team_id.
     ebind (get_chain boxscore [''teamInfo'', ''away''] ''id'' (PInt 0)) (\<lambda>away_team_id.
     ebind (time_value boxscore) (\<lambda>tv.
     ebind (py_int p (PStr game_id)) (\<lambda>g.
     ebind (py_int p home_team_id) (\<lambda>hid.
     ebind (py_int p away_team_id) (\<lambda>aid.
     ebind (py_int p home_score) (\<lambda>hs.
     ebind (py_int p away_score) (\<lambda>as.
     ebind (py_int p home_score) (\<lambda>hs'.
     ebind (py_int p away_score) (\<lambda>as'.
     Inr (PDict
       [(''game_id'', PInt g),
        (''home_team_id'', PInt hid),
        (''home_team'', home_team),
        (''away_team_id'', PInt aid),
        (''away_team'', away_team),
        (''home_score'', PInt hs),
        (''away_score'', PInt as),
        (''score_differential'', PInt \<bar>hs' - as'\<bar>),
        (''game_time'', tv)])))))))))))))))"

text \<open>Lines 81 to 100 of \<open>fetch_game_location\<close>.\<close>

definition transform_location ::
  "(string \<Rightarrow> int option) \<Rightarrow> (string \<Rightarrow> real option) \<Rightarrow> string \<Rightarrow> pyval \<Rightarrow> error + pyval" where
  "transform_location p q game_id game =
     ebind (py_get game ''gameData'' (PDict [])) (\<lambda>game_data.
     ebind (py_get game_data ''venue'' (PDict [])) (\<lambda>venue.
     ebind (py_get venue ''location'' (PDict [])) (\<lambda>location.
     ebind (py_get location ''defaultCoordinates'' (PDict [])) (\<lambda>default_coordinates.
     ebind (py_int p (PStr game_id)) (\<lambda>g.
     ebind (py_get venue ''id'' PNone) (\<lambda>vid.
     ebind (if truthy vid then ebind (py_get venue ''id'' (PInt 0)) (py_int p) else Inr 0) (\<lambda>venue_id.
     ebind (py_get venue ''name'' (PStr ''Unknown'')) (\<lambda>venue_name.
     ebind (py_get location ''city'' (PStr ''Unknown'')) (\<lambda>venue_city.
     ebind (py_get location ''state'' (PStr ''Unknown'')) (\<lambda>venue_state.
     ebind (py_get location ''postalCode'' (PStr ''Unknown'')) (\<lambda>venue_postal_code.
     ebind (py_get location ''country'' (PStr ''Unknown'')) (\<lambda>venue_country.
     ebind (ebind (py_get default_coordinates ''latitude'' (PFloat 0)) (py_float q)) (\<lambda>lat.
     ebind (ebind (py_get default_coordinates ''longitude'' (PFloat 0)) (py_float q)) (\<lambda>lon.
     ebind (ebind (py_get location ''elevation'' (PFloat 0)) (py_float q)) (\<lambda>elev.
     Inr (PDict
       [(''game_id'', PInt g),
        (''venue_id'', PInt venue_id),
        (''venue_name'', venue_name),
        (''venue_city'', venue_city),
        (''venue_state'', venue_state),
        (''venue_postal_code'', venue_postal_code),
        (''venue_country'', venue_country),
        (''venue_latitude'', PFloat lat),
        (''venue_longitude'', PFloat lon),
        (''venue_elevation'', PFloat elev)]))))))))))))))))"

section \<open>Effects and external collaborators\<close>

text \<open>
  Everything a script does to the outside is an event of a trace, in the order it
  happens: a call of the statistics API, of the elevation API, of the warehouse
  connector or of the lineage emitter, and each line it prints or logs. A printed or
  logged line is its format string with the interpolated values. The SQL statements are
  named instead of spelt out.
\<close>

datatype sql =
    CreateGameScores
  | CreateGameLocations
  | InsertGameScores
  | InsertGameLocations
  | CreateElevationData
  | InsertElevationData
  | SelectDistinctLocations

datatype fmt_arg = Val pyval | Exc error

datatype event =
    ScheduleCall int string string
  | BoxscoreCall string
  | GameCall string
  | HttpGet pyval pyval
  | ConnectorLoad string
  | Execute sql
  | ExecuteMany sql "pyval list"
  | FetchMany sql nat
  | LineageEvent string
  | Print string "fmt_arg list"
  | LogInfo string "fmt_arg list"
  | LogError string "fmt_arg list"

text \<open>
  The collaborators are parameters of the model. Each one answers a call from the trace
  so far, so that it may fail now and succeed later, and each may raise. \<open>requests_get\<close>
  gives the response, whose \<open>json()\<close> may raise in turn. \<open>set_rank\<close> fixes the order in
  which Python iterates a set of strings, which the language leaves open.
\<close>

record env =
  str_to_int :: "string \<Rightarrow> int option"
  str_to_float :: "string \<Rightarrow> real option"
  py_str :: "pyval \<Rightarrow> string"
  set_rank :: "string \<Rightarrow> nat"
  schedule :: "event list \<Rightarrow> int \<Rightarrow> string \<Rightarrow> string \<Rightarrow> error + pyval"
  boxscore_data :: "event list \<Rightarrow> string \<Rightarrow> error + pyval"
  statsapi_get_game :: "event list \<Rightarrow> string \<Rightarrow> error + pyval"
  requests_get :: "event list \<Rightarrow> pyval \<Rightarrow> pyval \<Rightarrow> error + (error + pyval)"
  connector_load :: "event list \<Rightarrow> string \<Rightarrow> error + unit"
  conn_execute :: "event list \<Rightarrow> sql \<Rightarrow> error + unit"
  conn_execute_many :: "event list \<Rightarrow> sql \<Rightarrow> pyval list \<Rightarrow> error + unit"
  conn_fetch_many :: "event list \<Rightarrow> sql \<Rightarrow> nat \<Rightarrow> error + pyval list"
  emit_lineage_event :: "event list \<Rightarrow> string \<Rightarrow> error + unit"

text \<open>A computation takes the trace so far and gives its result, or the exception it raised, and the trace after it.\<close>

type_synonym 'a comp = "event list \<Rightarrow> (error + 'a) \<times> event list"

definition ret :: "'a \<Rightarrow> 'a comp" where
  "ret x h = (Inr x, h)"

definition raise :: "error \<Rightarrow> 'a comp" where
  "raise e h = (Inl e, h)"

definition lift :: "error + 'a \<Rightarrow> 'a comp" where
  "lift r h = (r, h)"

definition bnd :: "'a comp \<Rightarrow> ('a \<Rightarrow> 'b comp) \<Rightarrow> 'b comp" where
  "bnd m f h = (case m h of (Inl e, h') \<Rightarrow> (Inl e, h') | (Inr x, h') \<Rightarrow> f x h')"

definition tell :: "event \<Rightarrow> unit comp" where
  "tell ev h = (Inr (), h @ [ev])"

definition extern :: "event \<Rightarrow> (event list \<Rightarrow> error + 'a) \<Rightarrow> 'a comp" where
  "extern ev answer h = (answer h, h @ [ev])"

text \<open>\<open>try: body except Exception as e: handler(e)\<close>.\<close>

definition try_except :: "'a comp \<Rightarrow> (error \<Rightarrow> 'a comp) \<Rightarrow> 'a comp" where
  "try_except body handler h =
     (case body h of (Inl e, h') \<Rightarrow> handler e h' | (Inr x, h') \<Rightarrow> (Inr x, h'))"

text \<open>
  The workflow engine's \<open>@task(retries=n)\<close>: the body runs once and, each time it raises,
  runs again, up to \<open>n\<close> more times; the exception of the last run is the task's. A task
  called inside a flow gives its result or raises that exception. The delay between two
  runs is not part of the model.
\<close>

fun run_task :: "nat \<Rightarrow> 'a comp \<Rightarrow> 'a comp" where
  "run_task 0 body h = body h"
| "run_task (Suc n) body h =
     (case body h of (Inl e, h') \<Rightarrow> run_task n body h' | (Inr x, h') \<Rightarrow> (Inr x, h'))"

section \<open>get\_mlb\_data.py\<close>

text \<open>\<open>[str(game["game_id"]) for game in schedule]\<close>.\<close>

fun game_ids_of :: "(pyval \<Rightarrow> string) \<Rightarrow> pyval list \<Rightarrow> error + string list" where
  "game_ids_of str [] = Inr []"
| "game_ids_of str (game # games) =
     ebind (py_item game ''game_id'') (\<lambda>gid.
     ebind (game_ids_of str games) (\<lambda>rest. Inr (str gid # rest)))"

text \<open>\<open>list(set(xs))\<close>: every element once, in the order of the set's iteration.\<close>

definition list_of_set :: "(string \<Rightarrow> nat) \<Rightarrow> string list \<Rightarrow> string list" where
  "list_of_set rank xs = sort_key rank (remdups xs)"

fun recent_games_loop ::
  "env \<Rightarrow> string \<Rightarrow> string \<Rightarrow> string list \<Rightarrow> int list \<Rightarrow> string list comp" where
  "recent_games_loop E start_date end_date all_game_ids [] = ret all_game_ids"
| "recent_games_loop E start_date end_date all_game_ids (team_id # team_ids) =
     bnd (extern (ScheduleCall team_id start_date end_date)
            (\<lambda>h. schedule E h team_id start_date end_date)) (\<lambda>sched.
     bnd (lift (ebind (py_iter sched) (game_ids_of (py_str E)))) (\<lambda>game_ids.
     bnd (tell (Print ''Retrieved {} games for team ID {}.''
            [Val (PInt (int (length game_ids))), Val (PInt team_id)])) (\<lambda>_.
     recent_games_loop E start_date end_date (all_game_ids @ game_ids) team_ids)))"

definition get_recent_games :: "env \<Rightarrow> int list \<Rightarrow> string \<Rightarrow> string \<Rightarrow> string list comp" where
  "get_recent_games E team_ids start_date end_date =
     run_task 0
       (bnd (recent_games_loop E start_date end_date [] team_ids) (\<lambda>all_game_ids.
        ret (list_of_set (set_rank E) all_game_ids)))"

definition fetch_game_score_body :: "env \<Rightarrow> string \<Rightarrow> pyval comp" where
  "fetch_game_score_body E game_id =
     bnd (extern (BoxscoreCall game_id) (\<lambda>h. boxscore_data E h game_id)) (\<lambda>boxscore.
     if \<not> truthy boxscore then
       bnd (tell (Print ''No boxscore data found for game ID {}.'' [Val (PStr game_id)])) (\<lambda>_.
       ret (PDict []))
     else lift (transform_score (str_to_int E) game_id boxscore))"

definition fetch_game_score :: "env \<Rightarrow> string \<Rightarrow> pyval comp" where
  "fetch_game_score E game_id = run_task 5 (fetch_game_score_body E game_id)"

definition fetch_game_location_body :: "env \<Rightarrow> string \<Rightarrow> pyval comp" where
  "fetch_game_location_body E game_id =
     bnd (extern (GameCall game_id) (\<lambda>h. statsapi_get_game E h game_id)) (\<lambda>game.
     if \<not> truthy game then
       bnd (tell (Print ''No location data found for game ID {}.'' [Val (PStr game_id)])) (\<lambda>_.
       ret (PDict []))
     else lift (transform_location (str_to_int E) (str_to_float E) game_id game))"

definition fetch_game_location :: "env \<Rightarrow> string \<Rightarrow> pyval comp" where
  "fetch_game_location E game_id = run_task 5 (fetch_game_location_body E game_id)"

fun get_game_scores_loop :: "env \<Rightarrow> pyval list \<Rightarrow> string list \<Rightarrow> pyval list comp" where
  "get_game_scores_loop E scores [] = ret scores"
| "get_game_scores_loop E scores (game_id # game_ids) =
     bnd (fetch_game_score E game_id) (\<lambda>score_data.
     if truthy score_data then
       bnd (tell (Print ''Processed scores for game ID {}.'' [Val (PStr game_id)])) (\<lambda>_.
       get_game_scores_loop E (scores @ [score_data]) game_ids)
     else get_game_scores_loop E scores game_ids)"

definition get_game_scores :: "env \<Rightarrow> string list \<Rightarrow> pyval list comp" where
  "get_game_scores E game_ids = get_game_scores_loop E [] game_ids"

fun get_game_locations_loop :: "env \<Rightarrow> pyval list \<Rightarrow> string list \<Rightarrow> pyval list comp" where
  "get_game_locations_loop E locations [] = ret locations"
| "get_game_locations_loop E locations (game_id # game_ids) =
     bnd (fetch_game_location E game_id) (\<lambda>location_data.
     if truthy location_data then
       bnd (tell (Print ''Processed location data for game ID {}.'' [Val (PStr game_id)])) (\<lambda>_.
       get_game_locations_loop E (locations @ [location_data]) game_ids)
     else get_game_locations_loop E locations game_ids)"

definition get_game_locations_flow :: "env \<Rightarrow> string list \<Rightarrow> pyval list comp" where
  "get_game_locations_flow E game_ids = get_game_locations_loop E [] game_ids"

section \<open>snowflake\_helper.py\<close>

text \<open>
  \<open>with SnowflakeConnector.load(block_name) as connector\<close> loads the connector by name
  and runs the block with it; opening and closing the connection leave no event.
\<close>

definition with_connector :: "env \<Rightarrow> string \<Rightarrow> 'a comp \<Rightarrow> 'a comp" where
  "with_connector E block_name body =
     bnd (extern (ConnectorLoad block_name) (\<lambda>h. connector_load E h block_name)) (\<lambda>_. body)"

definition setup_tables :: "env \<Rightarrow> string \<Rightarrow> unit comp" where
  "setup_tables E block_name =
     run_task 0
       (try_except
          (with_connector E block_name
             (bnd (extern (Execute CreateGameScores) (\<lambda>h. conn_execute E h CreateGameScores)) (\<lambda>_.
              bnd (tell (LogInfo ''Created table: GAME_SCORES'' [])) (\<lambda>_.
              bnd (extern (Execute CreateGameLocations) (\<lambda>h. conn_execute E h CreateGameLocations)) (\<lambda>_.
              tell (LogInfo ''Created table: GAME_LOCATIONS'' []))))))
          (\<lambda>e. bnd (tell (LogError ''Error setting up tables: {}'' [Exc e])) (\<lambda>_. raise e)))"

definition insert_game_scores :: "env \<Rightarrow> pyval list \<Rightarrow> string \<Rightarrow> unit comp" where
  "insert_game_scores E game_scores block_name =
     run_task 0
       (if game_scores = [] then tell (LogInfo ''No game scores to insert.'' [])
        else
          try_except
            (with_connector E block_name
               (bnd (extern (ExecuteMany InsertGameScores game_scores)
                      (\<lambda>h. conn_execute_many E h InsertGameScores game_scores)) (\<lambda>_.
                tell (LogInfo ''Inserted {} game scores into Snowflake.''
                       [Val (PInt (int (length game_scores)))]))))
            (\<lambda>e. bnd (tell (LogError ''Failed to insert game scores: {}'' [Exc e])) (\<lambda>_. raise e)))"

definition insert_game_locations :: "env \<Rightarrow> pyval list \<Rightarrow> string \<Rightarrow> unit comp" where
  "insert_game_locations E game_locations block_name =
     run_task 0
       (if game_locations = [] then tell (LogInfo ''No game locations to insert.'' [])
        else
          try_except
            (with_connector E block_name
               (bnd (extern (ExecuteMany InsertGameLocations game_locations)
                      (\<lambda>h. conn_execute_many E h InsertGameLocations game_locations)) (\<lambda>_.
                tell (LogInfo ''Inserted {} game locations into Snowflake.''
                       [Val (PInt (int (length game_locations)))]))))
            (\<lambda>e. bnd (tell (LogError ''Failed to insert game locations: {}'' [Exc e])) (\<lambda>_. raise e)))"

text \<open>The top-level flow of get\_mlb\_data.py.\<close>

definition mlb_simple_flow :: "env \<Rightarrow> int list \<Rightarrow> string \<Rightarrow> string \<Rightarrow> string \<Rightarrow> unit comp" where
  "mlb_simple_flow E team_ids start_date end_date snowflake_block =
     bnd (setup_tables E snowflake_block) (\<lambda>_.
     bnd (get_recent_games E team_ids start_date end_date) (\<lambda>game_ids.
     bnd (get_game_scores E game_ids) (\<lambda>scores.
     bnd (get_game_locations_flow E game_ids) (\<lambda>locations.
     bnd (insert_game_scores E scores snowflake_block) (\<lambda>_.
     bnd (insert_game_locations E locations snowflake_block) (\<lambda>_.
     tell (Print ''MLB Simple Flow Completed Successfully.'' [])))))))"

section \<open>get\_elevation\_data.py\<close>

text \<open>
  The functions of this script are coroutines. Each one is awaited where it is called, so
  they run one after the other, and the calls on the connector are taken as they are
  written, as calls that return when the statement has been executed.
\<close>

definition get_city_data :: "env \<Rightarrow> pyval list comp" where
  "get_city_data E =
     run_task 0
       (with_connector E ''dev-day-connector''
          (bnd (extern (FetchMany SelectDistinctLocations 100)
                 (\<lambda>h. conn_fetch_many E h SelectDistinctLocations 100)) (\<lambda>locations.
           bnd (extern (LineageEvent ''Get Game Locations to Snowflake'')
                 (\<lambda>h. emit_lineage_event E h ''Get Game Locations to Snowflake'')) (\<lambda>_.
           ret locations))))"

definition get_elevation :: "env \<Rightarrow> pyval \<Rightarrow> pyval \<Rightarrow> pyval comp" where
  "get_elevation E latitude longitude =
     run_task 0
       (bnd (extern (HttpGet latitude longitude) (\<lambda>h. requests_get E h latitude longitude)) (\<lambda>response.
        bnd (extern (LineageEvent ''get_elevation_data'')
              (\<lambda>h. emit_lineage_event E h ''get_elevation_data'')) (\<lambda>_.
        lift (ebind response (\<lambda>json. py_item json ''elevation'')))))"

text \<open>The parameter rows of the insert: \<open>[{...} for location, elev in zip(locations, elevation)]\<close>.\<close>

fun elevation_rows :: "(pyval \<times> pyval) list \<Rightarrow> error + pyval list" where
  "elevation_rows [] = Inr []"
| "elevation_rows ((location, elev) # pairs) =
     ebind (py_index location 0) (\<lambda>city.
     ebind (py_index location 1) (\<lambda>lat.
     ebind (py_index location 2) (\<lambda>lon.
     ebind (elevation_rows pairs) (\<lambda>rows.
     Inr (PDict [(''city'', city), (''lat'', lat), (''lon'', lon), (''elevation'', elev)] # rows)))))"

definition setup_table :: "env \<Rightarrow> string \<Rightarrow> pyval list \<Rightarrow> pyval list \<Rightarrow> unit comp" where
  "setup_table E block_name locations elevation =
     run_task 0
       (bnd (extern (ConnectorLoad block_name) (\<lambda>h. connector_load E h block_name)) (\<lambda>_.
        bnd (extern (Execute CreateElevationData) (\<lambda>h. conn_execute E h CreateElevationData)) (\<lambda>_.
        bnd (lift (elevation_rows (zip locations elevation))) (\<lambda>rows.
        bnd (extern (ExecuteMany InsertElevationData rows)
              (\<lambda>h. conn_execute_many E h InsertElevationData rows)) (\<lambda>_.
        extern (LineageEvent ''Upload Elevation Data to Snowflake'')
          (\<lambda>h. emit_lineage_event E h ''Upload Elevation Data to Snowflake''))))))"

text \<open>\<open>for _, lat, long in locations\<close>: each row is unpacked into exactly three values.\<close>

definition unpack3 :: "pyval \<Rightarrow> error + (pyval \<times> pyval \<times> pyval)" where
  "unpack3 row =
     ebind (py_iter row) (\<lambda>xs.
       case xs of [a, b, c] \<Rightarrow> Inr (a, b, c) | _ \<Rightarrow> Inl ValueError)"

fun elevations_loop :: "env \<Rightarrow> pyval list \<Rightarrow> pyval list \<Rightarrow> pyval list comp" where
  "elevations_loop E elevations [] = ret elevations"
| "elevations_loop E elevations (row # rows) =
     bnd (lift (unpack3 row)) (\<lambda>(_, lat, long).
     bnd (get_elevation E lat long) (\<lambda>elevation.
     bnd (tell (Print ''{}'' [Val elevation])) (\<lambda>_.
     elevations_loop E (elevations @ [elevation]) rows)))"

definition main_elevation :: "env \<Rightarrow> unit comp" where
  "main_elevation E =
     bnd (get_city_data E) (\<lambda>locations.
     bnd (elevations_loop E [] locations) (\<lambda>elevations.
     setup_table E ''dev-day-connector'' locations elevations))"

section \<open>Shapes of a payload\<close>

text \<open>
  What it means for a field of a payload to be missing, and for the fields that are there
  to have the shape the transformers expect. \<open>reach v js\<close> follows the keys \<open>js\<close> down the
  nested mappings the way the chained \<open>get\<close> calls do, a missing key standing for the
  empty mapping, and fails where it meets something that is no mapping. A field is
  \<open>absent\<close> when the mapping so reached has no such key. \<open>leaf_ok P\<close> asks that the
  mapping can be reached and that the field, if it is there, satisfies \<open>P\<close>: it converts
  with \<open>int\<close> or with \<open>float\<close>, or may be anything. The box information, if it is there, is
  a list of mappings; the game time is absent when no item is labelled T or that item
  has no value.
\<close>

fun is_dict :: "pyval \<Rightarrow> bool" where
  "is_dict (PDict kvs) = True"
| "is_dict _ = False"

fun field :: "pyval \<Rightarrow> string \<Rightarrow> pyval option" where
  "field (PDict kvs) k = map_of kvs k"
| "field _ k = None"

definition sub :: "pyval \<Rightarrow> string \<Rightarrow> pyval" where
  "sub v j = (case field v j of None \<Rightarrow> PDict [] | Some x \<Rightarrow> x)"

fun reach :: "pyval \<Rightarrow> string list \<Rightarrow> pyval option" where
  "reach v [] = (if is_dict v then Some v else None)"
| "reach v (j # js) = (if is_dict v then reach (sub v j) js else None)"

definition absent :: "pyval \<Rightarrow> string list \<Rightarrow> string \<Rightarrow> bool" where
  "absent v js k = (case reach v js of None \<Rightarrow> False | Some n \<Rightarrow> field n k = None)"

definition leaf_ok :: "(pyval \<Rightarrow> bool) \<Rightarrow> pyval \<Rightarrow> string list \<Rightarrow> string \<Rightarrow> bool" where
  "leaf_ok P v js k =
     (case reach v js of
        None \<Rightarrow> False
      | Some n \<Rightarrow> (case field n k of None \<Rightarrow> True | Some x \<Rightarrow> P x))"

definition int_like :: "(string \<Rightarrow> int option) \<Rightarrow> pyval \<Rightarrow> bool" where
  "int_like p x = (\<not> isl (py_int p x))"

definition float_like :: "(string \<Rightarrow> real option) \<Rightarrow> pyval \<Rightarrow> bool" where
  "float_like q x = (\<not> isl (py_float q x))"

definition any_value :: "pyval \<Rightarrow> bool" where
  "any_value x = True"

definition box_info_ok :: "pyval \<Rightarrow> bool" where
  "box_info_ok b =
     (case field b ''gameBoxInfo'' of
        None \<Rightarrow> True
      | Some (PList items) \<Rightarrow> list_all is_dict items
      | Some _ \<Rightarrow> False)"

definition time_absent :: "pyval \<Rightarrow> bool" where
  "time_absent b =
     (case field b ''gameBoxInfo'' of
        None \<Rightarrow> True
      | Some (PList items) \<Rightarrow>
          (case find (\<lambda>item. field item ''label'' = Some (PStr ''T'')) items of
             None \<Rightarrow> True
           | Some item \<Rightarrow> field item ''value'' = None)
      | Some _ \<Rightarrow> False)"

definition score_shape :: "(string \<Rightarrow> int option) \<Rightarrow> pyval \<Rightarrow> bool" where
  "score_shape p b =
     (leaf_ok (int_like p) b [''home'', ''teamStats'', ''batting''] ''runs''
      \<and> leaf_ok (int_like p) b [''away'', ''teamStats'', ''batting''] ''runs''
      \<and> leaf_ok any_value b [''teamInfo'', ''home''] ''teamName''
      \<and> leaf_ok any_value b [''teamInfo'', ''away''] ''teamName''
      \<and> leaf_ok (int_like p) b [''teamInfo'', ''home''] ''id''
      \<and> leaf_ok (int_like p) b [''teamInfo'', ''away''] ''id''
      \<and> box_info_ok b)"

definition id_like :: "(string \<Rightarrow> int option) \<Rightarrow> pyval \<Rightarrow> bool" where
  "id_like p x = (\<not> truthy x \<or> int_like p x)"

definition location_shape :: "(string \<Rightarrow> int option) \<Rightarrow> (string \<Rightarrow> real option) \<Rightarrow> pyval \<Rightarrow> bool" where
  "location_shape p q game =
     (leaf_ok (id_like p) game [''gameData'', ''venue''] ''id''
      \<and> leaf_ok any_value game [''gameData'', ''venue''] ''name''
      \<and> leaf_ok any_value game [''gameData'', ''venue'', ''location''] ''city''
      \<and> leaf_ok any_value game [''gameData'', ''venue'', ''location''] ''state''
      \<and> leaf_ok any_value game [''gameData'', ''venue'', ''location''] ''postalCode''
      \<and> leaf_ok any_value game [''gameData'', ''venue'', ''location''] ''country''
      \<and> leaf_ok (float_like q) game [''gameData'', ''venue'', ''location'', ''defaultCoordinates''] ''latitude''
      \<and> leaf_ok (float_like q) game [''gameData'', ''venue'', ''location'', ''defaultCoordinates''] ''longitude''
      \<and> leaf_ok (float_like q) game [''gameData'', ''venue'', ''location''] ''elevation'')"

section \<open>Rows of the elevation table\<close>

text \<open>
  The statements about the elevation path speak of the rows that the query of
  \<open>get_city_data\<close> selects, which are triples of a city, a latitude and a longitude, and
  of the parameter row that pairs such a triple with an elevation.
\<close>

definition location_row :: "pyval \<times> pyval \<times> pyval \<Rightarrow> pyval" where
  "location_row t = (case t of (city, lat, lon) \<Rightarrow> PList [city, lat, lon])"

definition elevation_row :: "pyval \<times> pyval \<times> pyval \<Rightarrow> pyval \<Rightarrow> pyval" where
  "elevation_row t elev =
     (case t of (city, lat, lon) \<Rightarrow>
        PDict [(''city'', city), (''lat'', lat), (''lon'', lon), (''elevation'', elev)])"

section \<open>Example payloads and environments\<close>

text \<open>
  Concrete inputs on which the theorems below are exercised: a boxscore with the two
  run totals and the home team only, a game with a venue but no location, and
  collaborators that always answer (\<open>calm_env\<close>), whose statistics API is down for every
  call (\<open>down_env\<close>), down for the first \<open>k\<close> calls of an identifier (\<open>flaky_env\<close>), down
  for one identifier (\<open>partial_env\<close>), empty-handed (\<open>empty_env\<close>), or whose lineage
  emitter raises (\<open>mute_env\<close>).
\<close>

definition sample_boxscore :: "int \<Rightarrow> int \<Rightarrow> pyval" where
  "sample_boxscore home away =
     PDict
       [(''home'', PDict [(''teamStats'', PDict [(''batting'', PDict [(''runs'', PInt home)])])]),
        (''away'', PDict [(''teamStats'', PDict [(''batting'', PDict [(''runs'', PInt away)])])]),
        (''teamInfo'', PDict [(''home'', PDict [(''teamName'', PStr ''Red Sox''), (''id'', PInt 111)])])]"

definition sample_game :: pyval where
  "sample_game =
     PDict [(''gameData'', PDict [(''venue'', PDict [(''id'', PInt 3), (''name'', PStr ''Fenway Park'')])])]"

definition sample_score_record :: "int \<Rightarrow> int \<Rightarrow> pyval" where
  "sample_score_record home away =
     PDict
       [(''game_id'', PInt 1), (''home_team_id'', PInt 111), (''home_team'', PStr ''Red Sox''),
        (''away_team_id'', PInt 0), (''away_team'', PStr ''Unknown''), (''home_score'', PInt home),
        (''away_score'', PInt away), (''score_differential'', PInt \<bar>home - away\<bar>),
        (''game_time'', PStr ''Unknown'')]"

definition sample_location_record :: pyval where
  "sample_location_record =
     PDict
       [(''game_id'', PInt 1), (''venue_id'', PInt 3), (''venue_name'', PStr ''Fenway Park''),
        (''venue_city'', PStr ''Unknown''), (''venue_state'', PStr ''Unknown''),
        (''venue_postal_code'', PStr ''Unknown''), (''venue_country'', PStr ''Unknown''),
        (''venue_latitude'', PFloat 0), (''venue_longitude'', PFloat 0),
        (''venue_elevation'', PFloat 0)]"

definition sample_locations :: "pyval list" where
  "sample_locations =
     [PList [PStr ''NYC'', PFloat 40.7, PFloat (- 74)], PList [PStr ''LA'', PFloat 34, PFloat (- 118.2)]]"

definition sample_triples :: "(pyval \<times> pyval \<times> pyval) list" where
  "sample_triples = [(PStr ''NYC'', PFloat 40.7, PFloat (- 74)), (PStr ''LA'', PFloat 34, PFloat (- 118.2))]"

definition calm_env :: env where
  "calm_env =
     \<lparr> str_to_int = map_of [(''1'', 1), (''2'', 2), (''3'', 3)],
       str_to_float = (\<lambda>s. None),
       py_str = (\<lambda>v. case v of PInt i \<Rightarrow> (if i = 1 then ''1'' else if i = 2 then ''2'' else ''3'')
                              | PStr s \<Rightarrow> s | _ \<Rightarrow> ''?''),
       set_rank = length,
       schedule = (\<lambda>h team s e.
          Inr (PList [PDict [(''game_id'', PInt 1)], PDict [(''game_id'', PInt 2)]])),
       boxscore_data = (\<lambda>h g. Inr (sample_boxscore 5 3)),
       statsapi_get_game = (\<lambda>h g. Inr sample_game),
       requests_get = (\<lambda>h lat lon.
          Inr (Inr (PDict [(''elevation'', if lat = PFloat 40.7 then PFloat 10 else PFloat 89)]))),
       connector_load = (\<lambda>h b. Inr ()),
       conn_execute = (\<lambda>h s. Inr ()),
       conn_execute_many = (\<lambda>h s rows. Inr ()),
       conn_fetch_many = (\<lambda>h s n. Inr sample_locations),
       emit_lineage_event = (\<lambda>h name. Inr ()) \<rparr>"

definition down_env :: env where
  "down_env =
     calm_env \<lparr> boxscore_data := (\<lambda>h g. Inl (External ''timeout'')),
                statsapi_get_game := (\<lambda>h g. Inl (External ''timeout'')) \<rparr>"

definition flaky_env :: "nat \<Rightarrow> env" where
  "flaky_env k =
     calm_env \<lparr> boxscore_data := (\<lambda>h g.
                  if count_list h (BoxscoreCall g) < k then Inl (External ''timeout'')
                  else Inr (sample_boxscore 5 3)),
                statsapi_get_game := (\<lambda>h g.
                  if count_list h (GameCall g) < k then Inl (External ''timeout'')
                  else Inr sample_game) \<rparr>"

definition partial_env :: env where
  "partial_env =
     calm_env \<lparr> boxscore_data := (\<lambda>h g.
                  if g = ''2'' then Inl (External ''timeout'') else Inr (sample_boxscore 5 3)),
                statsapi_get_game := (\<lambda>h g.
                  if g = ''2'' then Inl (External ''timeout'') else Inr sample_game) \<rparr>"

definition empty_env :: env where
  "empty_env =
     calm_env \<lparr> boxscore_data := (\<lambda>h g. Inr (PDict [])),
                statsapi_get_game := (\<lambda>h g. Inr PNone) \<rparr>"

definition mute_env :: env where
  "mute_env = calm_env \<lparr> emit_lineage_event := (\<lambda>h name. Inl (External ''events api down'')) \<rparr>"

section \<open>Basic facts\<close>

lemmas comp_defs = ret_def raise_def lift_def bnd_def tell_def extern_def try_except_def

lemma ebind_Inr: "ebind m f = Inr y \<Longrightarrow> \<exists>x. m = Inr x \<and> f x = Inr y"
  by (cases m) (simp_all add: ebind_def)

text \<open>A task that returns a value returns the value of one run of its body.\<close>

lemma run_task_Inr:
  "run_task n body h = (Inr x, h') \<Longrightarrow> \<exists>h0. body h0 = (Inr x, h')"
proof (induction n arbitrary: h)
  case 0
  then show ?case by auto
next
  case (Suc n)
  show ?case
  proof (cases "body h")
    case (Pair r h1)
    show ?thesis
    proof (cases r)
      case (Inl e)
      with Pair Suc.prems have "run_task n body h1 = (Inr x, h')" by simp
      then show ?thesis by (rule Suc.IH)
    next
      case (Inr y)
      with Pair Suc.prems have "body h = (Inr x, h')" by simp
      then show ?thesis by blast
    qed
  qed
qed

text \<open>A body that returns at once is run once, whatever the number of retries.\<close>

lemma run_task_success: "body h = (Inr x, h') \<Longrightarrow> run_task n body h = (Inr x, h')"
  by (cases n) simp_all

section \<open>Empty responses\<close>

lemma score_body_empty:
  assumes "boxscore_data E h gid = Inr v" and "\<not> truthy v"
  shows "fetch_game_score_body E gid h =
    (Inr (PDict []), h @ [BoxscoreCall gid, Print ''No boxscore data found for game ID {}.'' [Val (PStr gid)]])"
  using assms by (simp add: fetch_game_score_body_def comp_defs)

lemma location_body_empty:
  assumes "statsapi_get_game E h gid = Inr v" and "\<not> truthy v"
  shows "fetch_game_location_body E gid h =
    (Inr (PDict []), h @ [GameCall gid, Print ''No location data found for game ID {}.'' [Val (PStr gid)]])"
  using assms by (simp add: fetch_game_location_body_def comp_defs)

text \<open>
  Claim C6. When the API answers an identifier with an empty (falsy) response, the fetch
  task calls the API once, prints the "no data" line and returns the empty record: there
  is no second call and no exception. The orchestrator then goes on to the remaining
  identifiers with its list of records unchanged.
\<close>

theorem empty_response_skipped:
  "(boxscore_data E h gid = Inr v \<and> \<not> truthy v \<longrightarrow>
      fetch_game_score E gid h =
        (Inr (PDict []),
         h @ [BoxscoreCall gid, Print ''No boxscore data found for game ID {}.'' [Val (PStr gid)]])
      \<and> get_game_scores_loop E scores (gid # rest) h =
        get_game_scores_loop E scores rest
          (h @ [BoxscoreCall gid, Print ''No boxscore data found for game ID {}.'' [Val (PStr gid)]]))
   \<and> (statsapi_get_game E h gid = Inr v \<and> \<not> truthy v \<longrightarrow>
      fetch_game_location E gid h =
        (Inr (PDict []),
         h @ [GameCall gid, Print ''No location data found for game ID {}.'' [Val (PStr gid)]])
      \<and> get_game_locations_loop E locations (gid # rest) h =
        get_game_locations_loop E locations rest
          (h @ [GameCall gid, Print ''No location data found for game ID {}.'' [Val (PStr gid)]]))"
proof (intro conjI impI)
  assume a: "boxscore_data E h gid = Inr v \<and> \<not> truthy v"
  then show f: "fetch_game_score E gid h =
        (Inr (PDict []),
         h @ [BoxscoreCall gid, Print ''No boxscore data found for game ID {}.'' [Val (PStr gid)]])"
    unfolding fetch_game_score_def by (intro run_task_success score_body_empty) auto
  show "get_game_scores_loop E scores (gid # rest) h =
        get_game_scores_loop E scores rest
          (h @ [BoxscoreCall gid, Print ''No boxscore data found for game ID {}.'' [Val (PStr gid)]])"
    by (simp add: f bnd_def)
next
  assume a: "statsapi_get_game E h gid = Inr v \<and> \<not> truthy v"
  then show f: "fetch_game_location E gid h =
        (Inr (PDict []),
         h @ [GameCall gid, Print ''No location data found for game ID {}.'' [Val (PStr gid)]])"
    unfolding fetch_game_location_def by (intro run_task_success location_body_empty) auto
  show "get_game_locations_loop E locations (gid # rest) h =
        get_game_locations_loop E locations rest
          (h @ [GameCall gid, Print ''No location data found for game ID {}.'' [Val (PStr gid)]])"
    by (simp add: f bnd_def)
qed

theorem empty_response_skipped_witness:
  "fetch_game_score empty_env ''1'' [] =
     (Inr (PDict []), [BoxscoreCall ''1'', Print ''No boxscore data found for game ID {}.'' [Val (PStr ''1'')]])
   \<and> get_game_scores empty_env [''1''] [] =
     (Inr [], [BoxscoreCall ''1'', Print ''No boxscore data found for game ID {}.'' [Val (PStr ''1'')]])
   \<and> fetch_game_location empty_env ''1'' [] =
     (Inr (PDict []), [GameCall ''1'', Print ''No location data found for game ID {}.'' [Val (PStr ''1'')]])
   \<and> get_game_locations_flow empty_env [''1''] [] =
     (Inr [], [GameCall ''1'', Print ''No location data found for game ID {}.'' [Val (PStr ''1'')]])"
  using empty_response_skipped [of empty_env "[]" "''1''" "PDict []" "[]" "[]" "[]"]
    empty_response_skipped [of empty_env "[]" "''1''" "PNone" "[]" "[]" "[]"]
  by (simp add: empty_env_def calm_env_def get_game_scores_def get_game_locations_flow_def ret_def)

section \<open>The empty batch\<close>

text \<open>
  Claim C8. Called with an empty list of records, \<open>insert_game_scores\<close> and
  \<open>insert_game_locations\<close> return without an exception, and the only thing they do is to
  log one line: the connector is neither loaded nor asked to write.
\<close>

theorem empty_batch_no_write:
  "insert_game_scores E [] block_name h = (Inr (), h @ [LogInfo ''No game scores to insert.'' []])
   \<and> insert_game_locations E [] block_name h = (Inr (), h @ [LogInfo ''No game locations to insert.'' []])"
  by (simp add: insert_game_scores_def insert_game_locations_def tell_def)

theorem empty_batch_no_write_witness:
  "insert_game_scores calm_env [] ''dev-day-connector'' [] =
     (Inr (), [LogInfo ''No game scores to insert.'' []])
   \<and> insert_game_locations calm_env [] ''dev-day-connector'' [] =
     (Inr (), [LogInfo ''No game locations to insert.'' []])"
  using empty_batch_no_write [of calm_env "''dev-day-connector''" "[]"] by simp

section \<open>The score differential\<close>

lemma transform_score_differential:
  assumes "transform_score p gid b = Inr r"
  shows "\<exists>kvs hs as. r = PDict kvs \<and> map_of kvs ''home_score'' = Some (PInt hs)
     \<and> map_of kvs ''away_score'' = Some (PInt as)
     \<and> map_of kvs ''score_differential'' = Some (PInt \<bar>hs - as\<bar>)"
  using assms unfolding transform_score_def
  by (auto dest!: ebind_Inr)

lemma fetch_game_score_body_Inr:
  assumes "fetch_game_score_body E gid h = (Inr r, h')"
  shows "r = PDict [] \<or> (\<exists>b. transform_score (str_to_int E) gid b = Inr r)"
  using assms unfolding fetch_game_score_body_def comp_defs
  by (auto split: sum.splits if_splits)

text \<open>
  Claim C9. Every record that \<open>fetch_game_score\<close> returns, the empty "no data" record
  apart, has integer \<open>home_score\<close> and \<open>away_score\<close> fields and a \<open>score_differential\<close> field
  equal to the absolute value of their difference, which is never negative.
\<close>

theorem score_differential_abs:
  assumes "fetch_game_score E gid h = (Inr r, h')" and "r \<noteq> PDict []"
  shows "\<exists>kvs hs as. r = PDict kvs \<and> map_of kvs ''home_score'' = Some (PInt hs)
     \<and> map_of kvs ''away_score'' = Some (PInt as)
     \<and> map_of kvs ''score_differential'' = Some (PInt \<bar>hs - as\<bar>) \<and> 0 \<le> \<bar>hs - as\<bar>"
proof -
  from assms(1) obtain h0 where "fetch_game_score_body E gid h0 = (Inr r, h')"
    unfolding fetch_game_score_def by (blast dest: run_task_Inr)
  with assms(2) obtain b where "transform_score (str_to_int E) gid b = Inr r"
    by (blast dest: fetch_game_score_body_Inr)
  from transform_score_differential [OF this] show ?thesis by auto
qed

lemma example_score:
  "fetch_game_score (calm_env\<lparr>boxscore_data := (\<lambda>h g. Inr (sample_boxscore a b))\<rparr>) ''1'' [] =
     (Inr (PDict
        [(''game_id'', PInt 1), (''home_team_id'', PInt 111),
         (''home_team'', PStr ''Red Sox''), (''away_team_id'', PInt 0),
         (''away_team'', PStr ''Unknown''), (''home_score'', PInt a),
         (''away_score'', PInt b), (''score_differential'', PInt \<bar>a - b\<bar>),
         (''game_time'', PStr ''Unknown'')]), [BoxscoreCall ''1''])"
  by (simp add: fetch_game_score_def fetch_game_score_body_def calm_env_def comp_defs
      eval_nat_numeral transform_score_def sample_boxscore_def ebind_def time_value_def)

theorem score_differential_abs_witness:
  "(\<exists>kvs. fst (fetch_game_score
        (calm_env\<lparr>boxscore_data := (\<lambda>h g. Inr (sample_boxscore 5 3))\<rparr>) ''1'' []) = Inr (PDict kvs)
      \<and> map_of kvs ''home_score'' = Some (PInt 5) \<and> map_of kvs ''away_score'' = Some (PInt 3)
      \<and> map_of kvs ''score_differential'' = Some (PInt 2))
   \<and> (\<exists>kvs. fst (fetch_game_score
        (calm_env\<lparr>boxscore_data := (\<lambda>h g. Inr (sample_boxscore 3 5))\<rparr>) ''1'' []) = Inr (PDict kvs)
      \<and> map_of kvs ''home_score'' = Some (PInt 3) \<and> map_of kvs ''away_score'' = Some (PInt 5)
      \<and> map_of kvs ''score_differential'' = Some (PInt 2))"
  using score_differential_abs [OF example_score [of 5 3]]
    score_differential_abs [OF example_score [of 3 5]]
  by (simp add: example_score)

section \<open>Retries\<close>

text \<open>While the body keeps raising, each run uses up one retry.\<close>

lemma run_task_failures:
  assumes "\<forall>j<k. \<exists>e. body (h @ replicate j c) = (Inl e, h @ replicate (Suc j) c)" and "k \<le> n"
  shows "run_task n body h = run_task (n - k) body (h @ replicate k c)"
  using assms
proof (induction k arbitrary: n h)
  case 0
  then show ?case by simp
next
  case (Suc k)
  then obtain m where n: "n = Suc m" and km: "k \<le> m" by (cases n) auto
  from Suc.prems(1) obtain e where first: "body h = (Inl e, h @ [c])"
    by (auto dest: spec [of _ 0])
  have later: "\<forall>j<k. \<exists>e. body ((h @ [c]) @ replicate j c) = (Inl e, (h @ [c]) @ replicate (Suc j) c)"
  proof (intro allI impI)
    fix j assume "j < k"
    then have "Suc j < Suc k" by simp
    with Suc.prems(1) obtain e where "body (h @ replicate (Suc j) c) = (Inl e, h @ replicate (Suc (Suc j)) c)"
      by blast
    then show "\<exists>e. body ((h @ [c]) @ replicate j c) = (Inl e, (h @ [c]) @ replicate (Suc j) c)"
      by simp
  qed
  have "run_task n body h = run_task m body (h @ [c])"
    by (simp add: n first)
  also have "\<dots> = run_task (m - k) body ((h @ [c]) @ replicate k c)"
    using later km by (rule Suc.IH)
  finally show ?case by (simp add: n)
qed

lemma score_body_down:
  "boxscore_data E h gid = Inl e \<Longrightarrow> fetch_game_score_body E gid h = (Inl e, h @ [BoxscoreCall gid])"
  by (simp add: fetch_game_score_body_def comp_defs)

lemma location_body_down:
  "statsapi_get_game E h gid = Inl e \<Longrightarrow> fetch_game_location_body E gid h = (Inl e, h @ [GameCall gid])"
  by (simp add: fetch_game_location_body_def comp_defs)

lemma score_body_one_call:
  "fetch_game_score_body E gid h = (r, h') \<Longrightarrow> count_list h' (BoxscoreCall gid) = Suc (count_list h (BoxscoreCall gid))"
  by (auto simp: fetch_game_score_body_def comp_defs split: sum.splits if_splits)

lemma location_body_one_call:
  "fetch_game_location_body E gid h = (r, h') \<Longrightarrow> count_list h' (GameCall gid) = Suc (count_list h (GameCall gid))"
  by (auto simp: fetch_game_location_body_def comp_defs split: sum.splits if_splits)

lemma count_list_replicate_same: "count_list (replicate k c) c = k"
  by (induction k) simp_all

lemma score_failures:
  assumes "\<forall>j<k. isl (boxscore_data E (h @ replicate j (BoxscoreCall gid)) gid)"
  shows "\<forall>j<k. \<exists>e. fetch_game_score_body E gid (h @ replicate j (BoxscoreCall gid)) =
     (Inl e, h @ replicate (Suc j) (BoxscoreCall gid))"
proof (intro allI impI)
  fix j assume "j < k"
  with assms obtain e where "boxscore_data E (h @ replicate j (BoxscoreCall gid)) gid = Inl e"
    by (auto simp: isl_def)
  from score_body_down [OF this]
  show "\<exists>e. fetch_game_score_body E gid (h @ replicate j (BoxscoreCall gid)) =
     (Inl e, h @ replicate (Suc j) (BoxscoreCall gid))"
    by (auto simp: replicate_append_same)
qed

lemma location_failures:
  assumes "\<forall>j<k. isl (statsapi_get_game E (h @ replicate j (GameCall gid)) gid)"
  shows "\<forall>j<k. \<exists>e. fetch_game_location_body E gid (h @ replicate j (GameCall gid)) =
     (Inl e, h @ replicate (Suc j) (GameCall gid))"
proof (intro allI impI)
  fix j assume "j < k"
  with assms obtain e where "statsapi_get_game E (h @ replicate j (GameCall gid)) gid = Inl e"
    by (auto simp: isl_def)
  from location_body_down [OF this]
  show "\<exists>e. fetch_game_location_body E gid (h @ replicate j (GameCall gid)) =
     (Inl e, h @ replicate (Suc j) (GameCall gid))"
    by (auto simp: replicate_append_same)
qed

lemma score_exhausted:
  assumes "\<forall>j<5. isl (boxscore_data E (h @ replicate j (BoxscoreCall gid)) gid)"
    and "boxscore_data E (h @ replicate 5 (BoxscoreCall gid)) gid = Inl e"
  shows "fetch_game_score E gid h = (Inl e, h @ replicate 6 (BoxscoreCall gid))"
proof -
  have "fetch_game_score E gid h = run_task (5 - 5) (fetch_game_score_body E gid) (h @ replicate 5 (BoxscoreCall gid))"
    unfolding fetch_game_score_def
    by (rule run_task_failures [OF score_failures [OF assms(1)]]) simp
  also have "\<dots> = (Inl e, (h @ replicate 5 (BoxscoreCall gid)) @ [BoxscoreCall gid])"
    using score_body_down [OF assms(2)] by simp
  also have "(h @ replicate 5 (BoxscoreCall gid)) @ [BoxscoreCall gid] = h @ replicate 6 (BoxscoreCall gid)"
    by (simp add: eval_nat_numeral)
  finally show ?thesis .
qed

lemma score_recovers:
  assumes "k \<le> 5" and "\<forall>j<k. isl (boxscore_data E (h @ replicate j (BoxscoreCall gid)) gid)"
    and "fetch_game_score_body E gid (h @ replicate k (BoxscoreCall gid)) = (Inr r, h')"
  shows "fetch_game_score E gid h = (Inr r, h') \<and> count_list h' (BoxscoreCall gid) = count_list h (BoxscoreCall gid) + (k + 1)"
proof -
  have "fetch_game_score E gid h = run_task (5 - k) (fetch_game_score_body E gid) (h @ replicate k (BoxscoreCall gid))"
    unfolding fetch_game_score_def
    by (rule run_task_failures [OF score_failures [OF assms(2)] assms(1)])
  also have "\<dots> = (Inr r, h')"
    using assms(3) by (rule run_task_success)
  finally show ?thesis
    using score_body_one_call [OF assms(3)] by (simp add: count_list_replicate_same)
qed

lemma location_exhausted:
  assumes "\<forall>j<5. isl (statsapi_get_game E (h @ replicate j (GameCall gid)) gid)"
    and "statsapi_get_game E (h @ replicate 5 (GameCall gid)) gid = Inl e"
  shows "fetch_game_location E gid h = (Inl e, h @ replicate 6 (GameCall gid))"
proof -
  have "fetch_game_location E gid h =
      run_task (5 - 5) (fetch_game_location_body E gid) (h @ replicate 5 (GameCall gid))"
    unfolding fetch_game_location_def
    by (rule run_task_failures [OF location_failures [OF assms(1)]]) simp
  also have "\<dots> = (Inl e, (h @ replicate 5 (GameCall gid)) @ [GameCall gid])"
    using location_body_down [OF assms(2)] by simp
  also have "(h @ replicate 5 (GameCall gid)) @ [GameCall gid] = h @ replicate 6 (GameCall gid)"
    by (simp add: eval_nat_numeral)
  finally show ?thesis .
qed

lemma location_recovers:
  assumes "k \<le> 5" and "\<forall>j<k. isl (statsapi_get_game E (h @ replicate j (GameCall gid)) gid)"
    and "fetch_game_location_body E gid (h @ replicate k (GameCall gid)) = (Inr r, h')"
  shows "fetch_game_location E gid h = (Inr r, h')
    \<and> count_list h' (GameCall gid) = count_list h (GameCall gid) + (k + 1)"
proof -
  have "fetch_game_location E gid h =
      run_task (5 - k) (fetch_game_location_body E gid) (h @ replicate k (GameCall gid))"
    unfolding fetch_game_location_def
    by (rule run_task_failures [OF location_failures [OF assms(2)] assms(1)])
  also have "\<dots> = (Inr r, h')"
    using assms(3) by (rule run_task_success)
  finally show ?thesis
    using location_body_one_call [OF assms(3)] by (simp add: count_list_replicate_same)
qed

text \<open>
  Claim C1, as the code has it. \<open>retries=5\<close> gives five runs after the first one. When the
  API raises on six calls in a row for an identifier, the task makes exactly these six
  calls and raises the exception of the sixth. When the API raises on the first \<open>k\<close> calls,
  \<open>k\<close> at most 5, and the next run of the body returns a record, the task returns that
  record after \<open>k + 1\<close> calls.
\<close>

theorem fetch_six_attempts:
  "((\<forall>j<5. isl (boxscore_data E (h @ replicate j (BoxscoreCall gid)) gid))
      \<and> boxscore_data E (h @ replicate 5 (BoxscoreCall gid)) gid = Inl e
     \<longrightarrow> fetch_game_score E gid h = (Inl e, h @ replicate 6 (BoxscoreCall gid)))
   \<and> (k \<le> 5 \<and> (\<forall>j<k. isl (boxscore_data E (h @ replicate j (BoxscoreCall gid)) gid))
      \<and> fetch_game_score_body E gid (h @ replicate k (BoxscoreCall gid)) = (Inr r, h')
     \<longrightarrow> fetch_game_score E gid h = (Inr r, h')
       \<and> count_list h' (BoxscoreCall gid) = count_list h (BoxscoreCall gid) + (k + 1))
   \<and> ((\<forall>j<5. isl (statsapi_get_game E (h @ replicate j (GameCall gid)) gid))
      \<and> statsapi_get_game E (h @ replicate 5 (GameCall gid)) gid = Inl e
     \<longrightarrow> fetch_game_location E gid h = (Inl e, h @ replicate 6 (GameCall gid)))
   \<and> (k \<le> 5 \<and> (\<forall>j<k. isl (statsapi_get_game E (h @ replicate j (GameCall gid)) gid))
      \<and> fetch_game_location_body E gid (h @ replicate k (GameCall gid)) = (Inr r, h')
     \<longrightarrow> fetch_game_location E gid h = (Inr r, h')
       \<and> count_list h' (GameCall gid) = count_list h (GameCall gid) + (k + 1))"
  using score_exhausted [of E h gid e] score_recovers [of k E h gid r h']
    location_exhausted [of E h gid e] location_recovers [of k E h gid r h']
  by blast

theorem fetch_six_attempts_witness:
  "fetch_game_score down_env ''1'' [] = (Inl (External ''timeout''), replicate 6 (BoxscoreCall ''1''))
   \<and> fetch_game_location down_env ''1'' [] = (Inl (External ''timeout''), replicate 6 (GameCall ''1''))
   \<and> fetch_game_score (flaky_env 2) ''1'' [] = (Inr (sample_score_record 5 3), replicate 3 (BoxscoreCall ''1''))
   \<and> fetch_game_location (flaky_env 2) ''1'' [] = (Inr sample_location_record, replicate 3 (GameCall ''1''))"
proof -
  have s: "fetch_game_score_body (flaky_env 2) ''1'' ([] @ replicate 2 (BoxscoreCall ''1'')) =
      (Inr (sample_score_record 5 3), replicate 3 (BoxscoreCall ''1''))"
    by (simp add: fetch_game_score_body_def flaky_env_def calm_env_def comp_defs eval_nat_numeral
        sample_boxscore_def transform_score_def ebind_def time_value_def sample_score_record_def)
  have l: "fetch_game_location_body (flaky_env 2) ''1'' ([] @ replicate 2 (GameCall ''1'')) =
      (Inr sample_location_record, replicate 3 (GameCall ''1''))"
    by (simp add: fetch_game_location_body_def flaky_env_def calm_env_def comp_defs eval_nat_numeral
        sample_game_def transform_location_def ebind_def sample_location_record_def)
  have fs: "\<forall>j<2. isl (boxscore_data (flaky_env 2) ([] @ replicate j (BoxscoreCall ''1'')) ''1'')"
    by (simp add: flaky_env_def count_list_replicate_same)
  have fl: "\<forall>j<2. isl (statsapi_get_game (flaky_env 2) ([] @ replicate j (GameCall ''1'')) ''1'')"
    by (simp add: flaky_env_def count_list_replicate_same)
  have d: "(\<forall>j<5. isl (boxscore_data down_env ([] @ replicate j (BoxscoreCall ''1'')) ''1''))
      \<and> boxscore_data down_env ([] @ replicate 5 (BoxscoreCall ''1'')) ''1'' = Inl (External ''timeout'')
      \<and> (\<forall>j<5. isl (statsapi_get_game down_env ([] @ replicate j (GameCall ''1'')) ''1''))
      \<and> statsapi_get_game down_env ([] @ replicate 5 (GameCall ''1'')) ''1'' = Inl (External ''timeout'')"
    by (simp add: down_env_def)
  from d fetch_six_attempts [of down_env "[]" "''1''" "External ''timeout''"]
  have 1: "fetch_game_score down_env ''1'' [] = (Inl (External ''timeout''), replicate 6 (BoxscoreCall ''1''))"
    and 2: "fetch_game_location down_env ''1'' [] = (Inl (External ''timeout''), replicate 6 (GameCall ''1''))"
    by simp_all
  have k: "(2::nat) \<le> 5" by simp
  from k fs s fetch_six_attempts [of "flaky_env 2" "[]" "''1''" _ 2 "sample_score_record 5 3" "replicate 3 (BoxscoreCall ''1'')"]
  have 3: "fetch_game_score (flaky_env 2) ''1'' [] = (Inr (sample_score_record 5 3), replicate 3 (BoxscoreCall ''1''))"
    by blast
  from k fl l fetch_six_attempts [of "flaky_env 2" "[]" "''1''" _ 2 sample_location_record "replicate 3 (GameCall ''1'')"]
  have 4: "fetch_game_location (flaky_env 2) ''1'' [] = (Inr sample_location_record, replicate 3 (GameCall ''1''))"
    by blast
  show ?thesis
    by (simp only: 1 2 3 4)
qed

theorem five_attempts_counterexample:
  "snd (fetch_game_score down_env ''1'' []) \<noteq> replicate 5 (BoxscoreCall ''1'')
   \<and> count_list (snd (fetch_game_score down_env ''1'' [])) (BoxscoreCall ''1'') = 6
   \<and> snd (fetch_game_location down_env ''1'' []) \<noteq> replicate 5 (GameCall ''1'')
   \<and> count_list (snd (fetch_game_location down_env ''1'' [])) (GameCall ''1'') = 6
   \<and> fst (fetch_game_score (flaky_env 5) ''1'' []) = Inr (sample_score_record 5 3)"
  by (simp add: fetch_game_score_def fetch_game_score_body_def fetch_game_location_def
      fetch_game_location_body_def down_env_def flaky_env_def calm_env_def comp_defs
      eval_nat_numeral sample_boxscore_def transform_score_def ebind_def time_value_def
      sample_score_record_def)

section \<open>Terminal failures in the orchestrators\<close>

lemma get_game_scores_loop_append:
  "get_game_scores_loop E scores (pre @ post) h =
     bnd (get_game_scores_loop E scores pre) (\<lambda>scores'. get_game_scores_loop E scores' post) h"
proof (induction pre arbitrary: scores h)
  case Nil
  show ?case by (simp add: bnd_def ret_def)
next
  case (Cons gid pre)
  show ?case
    by (simp add: bnd_def tell_def Cons.IH split: prod.splits sum.splits)
qed

lemma get_game_locations_loop_append:
  "get_game_locations_loop E locations (pre @ post) h =
     bnd (get_game_locations_loop E locations pre) (\<lambda>locations'. get_game_locations_loop E locations' post) h"
proof (induction pre arbitrary: locations h)
  case Nil
  show ?case by (simp add: bnd_def ret_def)
next
  case (Cons gid pre)
  show ?case
    by (simp add: bnd_def tell_def Cons.IH split: prod.splits sum.splits)
qed

text \<open>
  Claim C2, as the code has it. The orchestrators call the fetch task with no handler
  around the call. When the records of the identifiers before \<open>gid\<close> have been gathered
  and the task for \<open>gid\<close> fails for good, the flow raises that exception at that very
  point: it returns no list, and no identifier after \<open>gid\<close> is fetched.
\<close>

theorem terminal_failure_propagates:
  "(get_game_scores E pre h = (Inr scores, h1) \<and> fetch_game_score E gid h1 = (Inl e, h2)
      \<longrightarrow> get_game_scores E (pre @ gid # post) h = (Inl e, h2))
   \<and> (get_game_locations_flow E pre h = (Inr locations, h1) \<and> fetch_game_location E gid h1 = (Inl e, h2)
      \<longrightarrow> get_game_locations_flow E (pre @ gid # post) h = (Inl e, h2))"
  by (simp add: get_game_scores_def get_game_locations_flow_def get_game_scores_loop_append
      get_game_locations_loop_append bnd_def)

lemma partial_ok:
  "fetch_game_score partial_env ''1'' [] = (Inr (sample_score_record 5 3), [BoxscoreCall ''1''])"
  "fetch_game_location partial_env ''1'' [] = (Inr sample_location_record, [GameCall ''1''])"
  by (simp_all add: fetch_game_score_def fetch_game_score_body_def fetch_game_location_def
      fetch_game_location_body_def partial_env_def calm_env_def comp_defs eval_nat_numeral
      sample_boxscore_def sample_game_def transform_score_def transform_location_def ebind_def
      time_value_def sample_score_record_def sample_location_record_def)

lemma partial_fail:
  "fetch_game_score partial_env ''2'' h = (Inl (External ''timeout''), h @ replicate 6 (BoxscoreCall ''2''))"
  "fetch_game_location partial_env ''2'' h = (Inl (External ''timeout''), h @ replicate 6 (GameCall ''2''))"
  by (simp_all add: fetch_game_score_def fetch_game_score_body_def fetch_game_location_def
      fetch_game_location_body_def partial_env_def calm_env_def comp_defs eval_nat_numeral)

theorem terminal_failure_propagates_witness:
  "get_game_scores partial_env [''1'', ''2'', ''3''] [] =
     (Inl (External ''timeout''),
      [BoxscoreCall ''1'', Print ''Processed scores for game ID {}.'' [Val (PStr ''1'')]]
        @ replicate 6 (BoxscoreCall ''2''))
   \<and> get_game_locations_flow partial_env [''1'', ''2'', ''3''] [] =
     (Inl (External ''timeout''),
      [GameCall ''1'', Print ''Processed location data for game ID {}.'' [Val (PStr ''1'')]]
        @ replicate 6 (GameCall ''2''))"
proof -
  have s: "get_game_scores partial_env [''1''] [] =
      (Inr [sample_score_record 5 3],
       [BoxscoreCall ''1'', Print ''Processed scores for game ID {}.'' [Val (PStr ''1'')]])"
    by (simp add: get_game_scores_def partial_ok comp_defs sample_score_record_def)
  have l: "get_game_locations_flow partial_env [''1''] [] =
      (Inr [sample_location_record],
       [GameCall ''1'', Print ''Processed location data for game ID {}.'' [Val (PStr ''1'')]])"
    by (simp add: get_game_locations_flow_def partial_ok comp_defs sample_location_record_def)
  show ?thesis
    using terminal_failure_propagates [of partial_env "[''1'']" "[]" _ _ "''2''" _ _ "[''3'']",
        unfolded s l partial_fail]
    by simp
qed

theorem skip_and_continue_counterexample:
  "fst (get_game_scores partial_env [''1'', ''2'', ''3''] []) = Inl (External ''timeout'')
   \<and> BoxscoreCall ''3'' \<notin> set (snd (get_game_scores partial_env [''1'', ''2'', ''3''] []))
   \<and> fst (get_game_locations_flow partial_env [''1'', ''2'', ''3''] []) = Inl (External ''timeout'')
   \<and> GameCall ''3'' \<notin> set (snd (get_game_locations_flow partial_env [''1'', ''2'', ''3''] []))"
  by (simp add: get_game_scores_def get_game_locations_flow_def partial_ok partial_fail comp_defs
      sample_score_record_def sample_location_record_def)

section \<open>Lineage emission\<close>

lemma get_city_data_emit_fails:
  assumes "\<forall>h' name. isl (emit_lineage_event E h' name)"
  shows "isl (fst (get_city_data E h))"
proof -
  from assms obtain e where
    "emit_lineage_event E (h @ [ConnectorLoad ''dev-day-connector'', FetchMany SelectDistinctLocations 100])
       ''Get Game Locations to Snowflake'' = Inl e"
    by (auto simp: isl_def)
  then show ?thesis
    by (auto simp: get_city_data_def with_connector_def comp_defs split: sum.splits)
qed

text \<open>
  Claim C7, as the code has it. Each task awaits \<open>emit_lineage_event\<close> with no handler
  around it, so an exception of the emitter is the task's exception: \<open>get_elevation\<close>
  raises it instead of returning the elevation, \<open>get_city_data\<close> instead of returning the
  rows, \<open>setup_table\<close> after the insert has been issued, and \<open>main_elevation\<close> raises
  whenever the emitter does.
\<close>

theorem emission_failure_propagates:
  "(requests_get E h lat lon = Inr response
      \<and> emit_lineage_event E (h @ [HttpGet lat lon]) ''get_elevation_data'' = Inl e
     \<longrightarrow> get_elevation E lat lon h = (Inl e, h @ [HttpGet lat lon, LineageEvent ''get_elevation_data'']))
   \<and> (connector_load E h ''dev-day-connector'' = Inr ()
      \<and> conn_fetch_many E (h @ [ConnectorLoad ''dev-day-connector'']) SelectDistinctLocations 100 = Inr locations
      \<and> emit_lineage_event E
          (h @ [ConnectorLoad ''dev-day-connector'', FetchMany SelectDistinctLocations 100])
          ''Get Game Locations to Snowflake'' = Inl e
     \<longrightarrow> get_city_data E h =
          (Inl e, h @ [ConnectorLoad ''dev-day-connector'', FetchMany SelectDistinctLocations 100,
             LineageEvent ''Get Game Locations to Snowflake'']))
   \<and> (connector_load E h block_name = Inr ()
      \<and> conn_execute E (h @ [ConnectorLoad block_name]) CreateElevationData = Inr ()
      \<and> elevation_rows (zip locations elevation) = Inr rows
      \<and> conn_execute_many E (h @ [ConnectorLoad block_name, Execute CreateElevationData])
          InsertElevationData rows = Inr ()
      \<and> emit_lineage_event E
          (h @ [ConnectorLoad block_name, Execute CreateElevationData, ExecuteMany InsertElevationData rows])
          ''Upload Elevation Data to Snowflake'' = Inl e
     \<longrightarrow> setup_table E block_name locations elevation h =
          (Inl e, h @ [ConnectorLoad block_name, Execute CreateElevationData,
             ExecuteMany InsertElevationData rows, LineageEvent ''Upload Elevation Data to Snowflake'']))
   \<and> ((\<forall>h' name. isl (emit_lineage_event E h' name)) \<longrightarrow> isl (fst (main_elevation E h)))"
proof (intro conjI impI)
  assume "requests_get E h lat lon = Inr response
      \<and> emit_lineage_event E (h @ [HttpGet lat lon]) ''get_elevation_data'' = Inl e"
  then show "get_elevation E lat lon h = (Inl e, h @ [HttpGet lat lon, LineageEvent ''get_elevation_data''])"
    by (simp add: get_elevation_def comp_defs)
next
  assume "connector_load E h ''dev-day-connector'' = Inr ()
      \<and> conn_fetch_many E (h @ [ConnectorLoad ''dev-day-connector'']) SelectDistinctLocations 100 = Inr locations
      \<and> emit_lineage_event E
          (h @ [ConnectorLoad ''dev-day-connector'', FetchMany SelectDistinctLocations 100])
          ''Get Game Locations to Snowflake'' = Inl e"
  then show "get_city_data E h =
          (Inl e, h @ [ConnectorLoad ''dev-day-connector'', FetchMany SelectDistinctLocations 100,
             LineageEvent ''Get Game Locations to Snowflake''])"
    by (simp add: get_city_data_def with_connector_def comp_defs)
next
  assume "connector_load E h block_name = Inr ()
      \<and> conn_execute E (h @ [ConnectorLoad block_name]) CreateElevationData = Inr ()
      \<and> elevation_rows (zip locations elevation) = Inr rows
      \<and> conn_execute_many E (h @ [ConnectorLoad block_name, Execute CreateElevationData])
          InsertElevationData rows = Inr ()
      \<and> emit_lineage_event E
          (h @ [ConnectorLoad block_name, Execute CreateElevationData, ExecuteMany InsertElevationData rows])
          ''Upload Elevation Data to Snowflake'' = Inl e"
  then show "setup_table E block_name locations elevation h =
          (Inl e, h @ [ConnectorLoad block_name, Execute CreateElevationData,
             ExecuteMany InsertElevationData rows, LineageEvent ''Upload Elevation Data to Snowflake''])"
    by (simp add: setup_table_def comp_defs)
next
  assume a: "\<forall>h' name. isl (emit_lineage_event E h' name)"
  obtain r h1 where g: "get_city_data E h = (r, h1)" by (cases "get_city_data E h")
  with get_city_data_emit_fails [OF a, of h] obtain e where "r = Inl e"
    by (auto simp: isl_def)
  with g show "isl (fst (main_elevation E h))"
    by (simp add: main_elevation_def bnd_def)
qed

theorem emission_failure_propagates_witness:
  "get_elevation mute_env (PFloat 40.7) (PFloat (- 74)) [] =
     (Inl (External ''events api down''),
      [HttpGet (PFloat 40.7) (PFloat (- 74)), LineageEvent ''get_elevation_data''])
   \<and> get_city_data mute_env [] =
     (Inl (External ''events api down''),
      [ConnectorLoad ''dev-day-connector'', FetchMany SelectDistinctLocations 100,
       LineageEvent ''Get Game Locations to Snowflake''])
   \<and> setup_table mute_env ''dev-day-connector'' [] [] [] =
     (Inl (External ''events api down''),
      [ConnectorLoad ''dev-day-connector'', Execute CreateElevationData,
       ExecuteMany InsertElevationData [], LineageEvent ''Upload Elevation Data to Snowflake''])
   \<and> isl (fst (main_elevation mute_env []))"
  using emission_failure_propagates [of mute_env "[]" "PFloat 40.7" "PFloat (- 74)"
      "Inr (PDict [(''elevation'', PFloat 10)])" "External ''events api down''"
      sample_locations "''dev-day-connector''" "[]" "[]"]
    emission_failure_propagates [of mute_env "[]" "PFloat 40.7" "PFloat (- 74)"
      "Inr (PDict [(''elevation'', PFloat 10)])" "External ''events api down''"
      "[]" "''dev-day-connector''" "[]" "[]"]
  by (simp add: mute_env_def calm_env_def)

theorem best_effort_emission_counterexample:
  "fst (get_elevation calm_env (PFloat 40.7) (PFloat (- 74)) []) = Inr (PFloat 10)
   \<and> fst (get_elevation mute_env (PFloat 40.7) (PFloat (- 74)) []) = Inl (External ''events api down'')
   \<and> fst (main_elevation calm_env []) = Inr ()
   \<and> fst (main_elevation mute_env []) = Inl (External ''events api down'')"
  by (simp add: main_elevation_def get_city_data_def get_elevation_def setup_table_def
      with_connector_def unpack3_def mute_env_def calm_env_def sample_locations_def comp_defs ebind_def)

section \<open>Deduplication of the identifiers\<close>

lemma score_body_calls:
  "fetch_game_score_body E gid h = (r, h') \<Longrightarrow>
   count_list h' (BoxscoreCall g) = count_list h (BoxscoreCall g) + (if g = gid then 1 else 0)"
  by (auto simp: fetch_game_score_body_def comp_defs split: sum.splits if_splits)

lemma location_body_calls:
  "fetch_game_location_body E gid h = (r, h') \<Longrightarrow>
   count_list h' (GameCall g) = count_list h (GameCall g) + (if g = gid then 1 else 0)"
  by (auto simp: fetch_game_location_body_def comp_defs split: sum.splits if_splits)

lemma scores_loop_calls:
  assumes "\<forall>gid\<in>set ids. \<forall>h0. \<not> isl (fst (fetch_game_score_body E gid h0))"
  shows "count_list (snd (get_game_scores_loop E scores ids h)) (BoxscoreCall g) =
    count_list h (BoxscoreCall g) + count_list ids g"
  using assms
proof (induction ids arbitrary: scores h)
  case Nil
  show ?case by (simp add: ret_def)
next
  case (Cons gid ids)
  obtain r h1 where b: "fetch_game_score_body E gid h = (r, h1)"
    by (cases "fetch_game_score_body E gid h")
  from Cons.prems have "\<not> isl (fst (fetch_game_score_body E gid h))" by simp
  with b obtain x where r: "r = Inr x"
    by (cases r) auto
  from b r have f: "fetch_game_score E gid h = (Inr x, h1)"
    unfolding fetch_game_score_def by (simp add: run_task_success)
  from score_body_calls [OF b, of g]
  have c: "count_list h1 (BoxscoreCall g) = count_list h (BoxscoreCall g) + (if g = gid then 1 else 0)" .
  from Cons.prems have rest: "\<forall>gid\<in>set ids. \<forall>h0. \<not> isl (fst (fetch_game_score_body E gid h0))"
    by simp
  show ?case
    by (simp add: f bnd_def tell_def Cons.IH [OF rest] c)
qed

lemma locations_loop_calls:
  assumes "\<forall>gid\<in>set ids. \<forall>h0. \<not> isl (fst (fetch_game_location_body E gid h0))"
  shows "count_list (snd (get_game_locations_loop E locations ids h)) (GameCall g) =
    count_list h (GameCall g) + count_list ids g"
  using assms
proof (induction ids arbitrary: locations h)
  case Nil
  show ?case by (simp add: ret_def)
next
  case (Cons gid ids)
  obtain r h1 where b: "fetch_game_location_body E gid h = (r, h1)"
    by (cases "fetch_game_location_body E gid h")
  from Cons.prems have "\<not> isl (fst (fetch_game_location_body E gid h))" by simp
  with b obtain x where r: "r = Inr x"
    by (cases r) auto
  from b r have f: "fetch_game_location E gid h = (Inr x, h1)"
    unfolding fetch_game_location_def by (simp add: run_task_success)
  from location_body_calls [OF b, of g]
  have c: "count_list h1 (GameCall g) = count_list h (GameCall g) + (if g = gid then 1 else 0)" .
  from Cons.prems have rest: "\<forall>gid\<in>set ids. \<forall>h0. \<not> isl (fst (fetch_game_location_body E gid h0))"
    by simp
  show ?case
    by (simp add: f bnd_def tell_def Cons.IH [OF rest] c)
qed

lemma count_list_distinct: "distinct xs \<Longrightarrow> x \<in> set xs \<Longrightarrow> count_list xs x = 1"
  by (induction xs) (auto simp: count_list_0_iff)

lemma list_of_set_distinct: "distinct (list_of_set rank xs)"
  by (simp add: list_of_set_def)

lemma list_of_set_set: "set (list_of_set rank xs) = set xs"
  by (simp add: list_of_set_def)

lemma get_recent_games_result:
  assumes "get_recent_games E team_ids start_date end_date h = (Inr ids, h')"
  shows "distinct ids
    \<and> (\<exists>all_game_ids. recent_games_loop E start_date end_date [] team_ids h = (Inr all_game_ids, h')
          \<and> set ids = set all_game_ids)"
  using assms
  by (auto simp: get_recent_games_def bnd_def ret_def list_of_set_distinct list_of_set_set
      split: prod.splits sum.splits)

text \<open>
  Claim C5. The list that \<open>get_recent_games\<close> returns has no identifier twice, and it has
  exactly the identifiers gathered from the schedules of all the teams. Run on this list,
  and as long as no fetch raises, each orchestrator asks the API exactly once for every
  identifier of the list.
\<close>

theorem recent_games_distinct:
  assumes "get_recent_games E team_ids start_date end_date h = (Inr ids, h')"
  shows "distinct ids
    \<and> (\<exists>all_game_ids. recent_games_loop E start_date end_date [] team_ids h = (Inr all_game_ids, h')
          \<and> set ids = set all_game_ids)
    \<and> ((\<forall>gid\<in>set ids. \<forall>h0. \<not> isl (fst (fetch_game_score_body E gid h0))) \<longrightarrow>
         (\<forall>g\<in>set ids. count_list (snd (get_game_scores E ids h')) (BoxscoreCall g) =
            count_list h' (BoxscoreCall g) + 1))
    \<and> ((\<forall>gid\<in>set ids. \<forall>h0. \<not> isl (fst (fetch_game_location_body E gid h0))) \<longrightarrow>
         (\<forall>g\<in>set ids. count_list (snd (get_game_locations_flow E ids h')) (GameCall g) =
            count_list h' (GameCall g) + 1))"
proof -
  note r = get_recent_games_result [OF assms]
  then have d: "distinct ids" by simp
  show ?thesis
    using r
    by (simp add: get_game_scores_def get_game_locations_flow_def scores_loop_calls
        locations_loop_calls count_list_distinct [OF d])
qed

lemma calm_bodies_ok:
  "gid \<in> {''1'', ''2''} \<Longrightarrow> \<not> isl (fst (fetch_game_score_body calm_env gid h0))"
  "gid \<in> {''1'', ''2''} \<Longrightarrow> \<not> isl (fst (fetch_game_location_body calm_env gid h0))"
  by (auto simp: fetch_game_score_body_def fetch_game_location_body_def comp_defs calm_env_def
      sample_boxscore_def sample_game_def transform_score_def transform_location_def ebind_def
      time_value_def)

theorem recent_games_distinct_witness:
  "get_recent_games calm_env [133, 134] ''2022-02-01'' ''2024-11-30'' [] =
     (Inr [''1'', ''2''],
      [ScheduleCall 133 ''2022-02-01'' ''2024-11-30'',
       Print ''Retrieved {} games for team ID {}.'' [Val (PInt 2), Val (PInt 133)],
       ScheduleCall 134 ''2022-02-01'' ''2024-11-30'',
       Print ''Retrieved {} games for team ID {}.'' [Val (PInt 2), Val (PInt 134)]])
   \<and> distinct [''1'', ''2'']
   \<and> fst (recent_games_loop calm_env ''2022-02-01'' ''2024-11-30'' [] [133, 134] []) =
       Inr [''1'', ''2'', ''1'', ''2'']
   \<and> count_list (snd (get_game_scores calm_env [''1'', ''2'']
          [ScheduleCall 133 ''2022-02-01'' ''2024-11-30'',
           Print ''Retrieved {} games for team ID {}.'' [Val (PInt 2), Val (PInt 133)],
           ScheduleCall 134 ''2022-02-01'' ''2024-11-30'',
           Print ''Retrieved {} games for team ID {}.'' [Val (PInt 2), Val (PInt 134)]]))
          (BoxscoreCall ''1'') = 1
   \<and> count_list (snd (get_game_scores calm_env [''1'', ''2'']
          [ScheduleCall 133 ''2022-02-01'' ''2024-11-30'',
           Print ''Retrieved {} games for team ID {}.'' [Val (PInt 2), Val (PInt 133)],
           ScheduleCall 134 ''2022-02-01'' ''2024-11-30'',
           Print ''Retrieved {} games for team ID {}.'' [Val (PInt 2), Val (PInt 134)]]))
          (BoxscoreCall ''2'') = 1"
proof -
  have l: "recent_games_loop calm_env ''2022-02-01'' ''2024-11-30'' [] [133, 134] [] =
     (Inr [''1'', ''2'', ''1'', ''2''],
      [ScheduleCall 133 ''2022-02-01'' ''2024-11-30'',
       Print ''Retrieved {} games for team ID {}.'' [Val (PInt 2), Val (PInt 133)],
       ScheduleCall 134 ''2022-02-01'' ''2024-11-30'',
       Print ''Retrieved {} games for team ID {}.'' [Val (PInt 2), Val (PInt 134)]])"
    by (simp add: calm_env_def comp_defs ebind_def)
  have g: "get_recent_games calm_env [133, 134] ''2022-02-01'' ''2024-11-30'' [] =
     (Inr [''1'', ''2''],
      [ScheduleCall 133 ''2022-02-01'' ''2024-11-30'',
       Print ''Retrieved {} games for team ID {}.'' [Val (PInt 2), Val (PInt 133)],
       ScheduleCall 134 ''2022-02-01'' ''2024-11-30'',
       Print ''Retrieved {} games for team ID {}.'' [Val (PInt 2), Val (PInt 134)]])"
    by (simp add: get_recent_games_def l bnd_def ret_def list_of_set_def
        del: recent_games_loop.simps) (simp_all add: calm_env_def)
  have ok: "\<forall>gid\<in>set [''1'', ''2'']. \<forall>h0. \<not> isl (fst (fetch_game_score_body calm_env gid h0))"
    using calm_bodies_ok(1) by simp
  from recent_games_distinct [OF g] ok g l show ?thesis by simp
qed

section \<open>The elevation table\<close>

lemma elevation_rows_step:
  "elevation_rows ((location_row t, ev) # pairs) =
     ebind (elevation_rows pairs) (\<lambda>rows. Inr (elevation_row t ev # rows))"
  by (cases t) (simp add: location_row_def elevation_row_def ebind_def)

lemma elevation_rows_zip:
  "elevation_rows (zip (map location_row ts) es) = Inr (map2 elevation_row ts es)"
proof (induction ts arbitrary: es)
  case Nil
  show ?case by simp
next
  case (Cons t ts)
  show ?case
  proof (cases es)
    case Nil
    then show ?thesis by simp
  next
    case (Cons ev es')
    then show ?thesis
      by (simp add: elevation_rows_step Cons.IH ebind_def del: elevation_rows.simps)
  qed
qed

lemma elevations_loop_length:
  "elevations_loop E acc rows h = (Inr es, h') \<Longrightarrow> length es = length acc + length rows"
proof (induction rows arbitrary: acc h)
  case Nil
  then show ?case by (simp add: ret_def)
next
  case (Cons row rows)
  from Cons.prems obtain ev h1 where "elevations_loop E (acc @ [ev]) rows h1 = (Inr es, h')"
    by (auto simp: comp_defs split: sum.splits prod.splits)
  from Cons.IH [OF this] show ?case by simp
qed

text \<open>
  Claim C3. Given the selected triples and a list of elevations, \<open>setup_table\<close> hands to
  the insert, once the connector is loaded and the table created, the rows that pair the
  triple at position \<open>i\<close> with the elevation at position \<open>i\<close>. \<open>main_elevation\<close> calls it with
  the triples as selected and the list of the elevations it looked up for them, one for
  each triple and in their order.
\<close>

theorem elevation_paired_by_position:
  "(connector_load E h block_name = Inr ()
      \<and> conn_execute E (h @ [ConnectorLoad block_name]) CreateElevationData = Inr ()
     \<longrightarrow> (\<exists>rows r rest.
          setup_table E block_name (map location_row ts) es h =
            (r, h @ [ConnectorLoad block_name, Execute CreateElevationData,
                     ExecuteMany InsertElevationData rows] @ rest)
          \<and> length rows = min (length ts) (length es)
          \<and> (\<forall>i<length rows. rows ! i = elevation_row (ts ! i) (es ! i))))
   \<and> (get_city_data E h = (Inr (map location_row ts), h1)
      \<and> elevations_loop E [] (map location_row ts) h1 = (Inr es, h2)
     \<longrightarrow> length es = length ts
       \<and> main_elevation E h = setup_table E ''dev-day-connector'' (map location_row ts) es h2)"
proof (intro conjI impI)
  assume a: "connector_load E h block_name = Inr ()
      \<and> conn_execute E (h @ [ConnectorLoad block_name]) CreateElevationData = Inr ()"
  let ?rows = "map2 elevation_row ts es"
  obtain r h' where s: "setup_table E block_name (map location_row ts) es h = (r, h')"
    by (cases "setup_table E block_name (map location_row ts) es h")
  with a have "\<exists>rest. h' = h @ [ConnectorLoad block_name, Execute CreateElevationData,
                     ExecuteMany InsertElevationData ?rows] @ rest"
    by (auto simp: setup_table_def comp_defs elevation_rows_zip split: sum.splits)
  then obtain rest where "h' = h @ [ConnectorLoad block_name, Execute CreateElevationData,
                     ExecuteMany InsertElevationData ?rows] @ rest" ..
  with s have "setup_table E block_name (map location_row ts) es h =
            (r, h @ [ConnectorLoad block_name, Execute CreateElevationData,
                     ExecuteMany InsertElevationData ?rows] @ rest)
          \<and> length ?rows = min (length ts) (length es)
          \<and> (\<forall>i<length ?rows. ?rows ! i = elevation_row (ts ! i) (es ! i))"
    by simp
  then show "\<exists>rows r rest.
          setup_table E block_name (map location_row ts) es h =
            (r, h @ [ConnectorLoad block_name, Execute CreateElevationData,
                     ExecuteMany InsertElevationData rows] @ rest)
          \<and> length rows = min (length ts) (length es)
          \<and> (\<forall>i<length rows. rows ! i = elevation_row (ts ! i) (es ! i))"
    by blast
next
  assume b: "get_city_data E h = (Inr (map location_row ts), h1)
      \<and> elevations_loop E [] (map location_row ts) h1 = (Inr es, h2)"
  then show "length es = length ts" by (auto dest: elevations_loop_length)
  from b show "main_elevation E h = setup_table E ''dev-day-connector'' (map location_row ts) es h2"
    by (simp add: main_elevation_def bnd_def)
qed

lemma sample_locations_rows: "sample_locations = map location_row sample_triples"
  by (simp add: sample_locations_def sample_triples_def location_row_def)

theorem elevation_paired_by_position_witness:
  "(\<exists>rows r rest.
      setup_table calm_env ''dev-day-connector'' sample_locations [PFloat 10, PFloat 89] [] =
        (r, [ConnectorLoad ''dev-day-connector'', Execute CreateElevationData,
             ExecuteMany InsertElevationData rows] @ rest)
      \<and> rows ! 0 = PDict [(''city'', PStr ''NYC''), (''lat'', PFloat 40.7), (''lon'', PFloat (- 74)),
                           (''elevation'', PFloat 10)]
      \<and> rows ! 1 = PDict [(''city'', PStr ''LA''), (''lat'', PFloat 34), (''lon'', PFloat (- 118.2)),
                           (''elevation'', PFloat 89)])
   \<and> main_elevation calm_env [] =
       setup_table calm_env ''dev-day-connector'' sample_locations [PFloat 10, PFloat 89]
         [ConnectorLoad ''dev-day-connector'', FetchMany SelectDistinctLocations 100,
          LineageEvent ''Get Game Locations to Snowflake'',
          HttpGet (PFloat 40.7) (PFloat (- 74)), LineageEvent ''get_elevation_data'',
          Print ''{}'' [Val (PFloat 10)],
          HttpGet (PFloat 34) (PFloat (- 118.2)), LineageEvent ''get_elevation_data'',
          Print ''{}'' [Val (PFloat 89)]]"
proof -
  let ?h1 = "[ConnectorLoad ''dev-day-connector'', FetchMany SelectDistinctLocations 100,
          LineageEvent ''Get Game Locations to Snowflake'']"
  let ?h2 = "?h1 @ [HttpGet (PFloat 40.7) (PFloat (- 74)), LineageEvent ''get_elevation_data'',
          Print ''{}'' [Val (PFloat 10)],
          HttpGet (PFloat 34) (PFloat (- 118.2)), LineageEvent ''get_elevation_data'',
          Print ''{}'' [Val (PFloat 89)]]"
  have c: "get_city_data calm_env [] = (Inr (map location_row sample_triples), ?h1)"
    by (simp add: get_city_data_def with_connector_def comp_defs calm_env_def
        sample_locations_rows [symmetric])
  have l: "elevations_loop calm_env [] (map location_row sample_triples) ?h1 =
      (Inr [PFloat 10, PFloat 89], ?h2)"
    by (simp add: sample_triples_def location_row_def get_elevation_def unpack3_def comp_defs
        ebind_def calm_env_def)
  have k: "connector_load calm_env [] ''dev-day-connector'' = Inr ()
      \<and> conn_execute calm_env ([] @ [ConnectorLoad ''dev-day-connector'']) CreateElevationData = Inr ()"
    by (simp add: calm_env_def)
  from k elevation_paired_by_position [of calm_env "[]" "''dev-day-connector''" sample_triples
      "[PFloat 10, PFloat 89]" "[]" "[]"]
  obtain rows r rest where
    s: "setup_table calm_env ''dev-day-connector'' (map location_row sample_triples)
          [PFloat 10, PFloat 89] [] =
        (r, [] @ [ConnectorLoad ''dev-day-connector'', Execute CreateElevationData,
             ExecuteMany InsertElevationData rows] @ rest)"
    and n: "length rows = min (length sample_triples) (length [PFloat 10, PFloat 89 :: pyval])"
    and p: "\<forall>i<length rows. rows ! i = elevation_row (sample_triples ! i) ([PFloat 10, PFloat 89] ! i)"
    by blast
  from n have n2: "length rows = 2" by (simp add: sample_triples_def)
  from p n2 have "rows ! 0 = elevation_row (sample_triples ! 0) (PFloat 10)"
    and "rows ! 1 = elevation_row (sample_triples ! 1) (PFloat 89)"
    by auto
  then have r0: "rows ! 0 = PDict [(''city'', PStr ''NYC''), (''lat'', PFloat 40.7), (''lon'', PFloat (- 74)),
                           (''elevation'', PFloat 10)]"
    and r1: "rows ! 1 = PDict [(''city'', PStr ''LA''), (''lat'', PFloat 34), (''lon'', PFloat (- 118.2)),
                           (''elevation'', PFloat 89)]"
    by (simp_all add: sample_triples_def elevation_row_def)
  from c l elevation_paired_by_position [of calm_env "[]" "''dev-day-connector''" sample_triples
      "[PFloat 10, PFloat 89]" ?h1 ?h2]
  have m: "main_elevation calm_env [] =
      setup_table calm_env ''dev-day-connector'' (map location_row sample_triples) [PFloat 10, PFloat 89] ?h2"
    by blast
  from s r0 r1 m show ?thesis
    unfolding sample_locations_rows by simp
qed

text \<open>
  Claim C10. With \<open>n\<close> triples and \<open>m\<close> elevations, and with a connector and an emitter that
  do not raise, \<open>setup_table\<close> returns without an exception and the insert it issues has
  \<open>min n m\<close> parameter rows: what the longer list has beyond the shorter is dropped.
\<close>

theorem setup_table_min_rows:
  "connector_load E h block_name = Inr ()
     \<and> conn_execute E (h @ [ConnectorLoad block_name]) CreateElevationData = Inr ()
     \<and> conn_execute_many E (h @ [ConnectorLoad block_name, Execute CreateElevationData])
          InsertElevationData (map2 elevation_row ts es) = Inr ()
     \<and> emit_lineage_event E
          (h @ [ConnectorLoad block_name, Execute CreateElevationData,
                ExecuteMany InsertElevationData (map2 elevation_row ts es)])
          ''Upload Elevation Data to Snowflake'' = Inr ()
   \<longrightarrow> setup_table E block_name (map location_row ts) es h =
        (Inr (), h @ [ConnectorLoad block_name, Execute CreateElevationData,
                      ExecuteMany InsertElevationData (map2 elevation_row ts es),
                      LineageEvent ''Upload Elevation Data to Snowflake''])
     \<and> length (map2 elevation_row ts es) = min (length ts) (length es)"
  by (simp add: setup_table_def comp_defs elevation_rows_zip)

theorem setup_table_min_rows_witness:
  "setup_table calm_env ''dev-day-connector'' sample_locations [PFloat 10, PFloat 89, PFloat 5] [] =
     (Inr (), [ConnectorLoad ''dev-day-connector'', Execute CreateElevationData,
        ExecuteMany InsertElevationData
          [PDict [(''city'', PStr ''NYC''), (''lat'', PFloat 40.7), (''lon'', PFloat (- 74)),
                  (''elevation'', PFloat 10)],
           PDict [(''city'', PStr ''LA''), (''lat'', PFloat 34), (''lon'', PFloat (- 118.2)),
                  (''elevation'', PFloat 89)]],
        LineageEvent ''Upload Elevation Data to Snowflake''])
   \<and> setup_table calm_env ''dev-day-connector'' sample_locations [PFloat 10] [] =
     (Inr (), [ConnectorLoad ''dev-day-connector'', Execute CreateElevationData,
        ExecuteMany InsertElevationData
          [PDict [(''city'', PStr ''NYC''), (''lat'', PFloat 40.7), (''lon'', PFloat (- 74)),
                  (''elevation'', PFloat 10)]],
        LineageEvent ''Upload Elevation Data to Snowflake''])"
  using setup_table_min_rows [of calm_env "[]" "''dev-day-connector''" sample_triples
      "[PFloat 10, PFloat 89, PFloat 5]"]
    setup_table_min_rows [of calm_env "[]" "''dev-day-connector''" sample_triples "[PFloat 10]"]
  unfolding sample_locations_rows
  by (simp add: calm_env_def sample_triples_def elevation_row_def)

section \<open>Defaults of the transformers\<close>

lemma py_get_dict:
  "is_dict v \<Longrightarrow> py_get v k d = Inr (case field v k of None \<Rightarrow> d | Some x \<Rightarrow> x)"
  by (cases v) simp_all

lemma get_chain_reach:
  "reach v js = Some n \<Longrightarrow> get_chain v js k d = Inr (case field n k of None \<Rightarrow> d | Some x \<Rightarrow> x)"
proof (induction js arbitrary: v)
  case Nil
  then show ?case by (simp add: py_get_dict split: if_splits)
next
  case (Cons j js)
  then have v: "is_dict v" and r: "reach (sub v j) js = Some n"
    by (simp_all split: if_splits)
  from v have "py_get v j (PDict []) = Inr (sub v j)"
    by (simp add: py_get_dict sub_def)
  with Cons.IH [OF r] show ?case by simp
qed

lemma get_chain_leaf:
  assumes "leaf_ok P b js k" and "P d"
  shows "\<exists>y. get_chain b js k d = Inr y \<and> P y \<and> (absent b js k \<longrightarrow> y = d)"
proof -
  from assms(1) obtain n where n: "reach b js = Some n"
    by (auto simp: leaf_ok_def split: option.splits)
  from assms n have "P (case field n k of None \<Rightarrow> d | Some x \<Rightarrow> x)"
    by (auto simp: leaf_ok_def split: option.splits)
  with get_chain_reach [OF n, of k d] n show ?thesis
    by (auto simp: absent_def)
qed

lemma reach_is_dict: "reach v js = Some n \<Longrightarrow> is_dict v"
  by (cases js) (simp_all split: if_splits)

lemma leaf_ok_is_dict: "leaf_ok P v js k \<Longrightarrow> is_dict v"
  by (auto simp: leaf_ok_def split: option.splits dest: reach_is_dict)

lemma first_time_dicts:
  "list_all is_dict items \<Longrightarrow>
   \<exists>tv. first_time items = Inr tv
     \<and> ((case find (\<lambda>item. field item ''label'' = Some (PStr ''T'')) items of
            None \<Rightarrow> True | Some item \<Rightarrow> field item ''value'' = None) \<longrightarrow> tv = PStr ''Unknown'')"
proof (induction items)
  case Nil
  show ?case by simp
next
  case (Cons item items)
  then have d: "is_dict item" and rest: "list_all is_dict items" by simp_all
  show ?case
  proof (cases "field item ''label'' = Some (PStr ''T'')")
    case True
    with d show ?thesis by (simp add: py_get_dict split: option.splits)
  next
    case False
    with d have "first_time (item # items) = first_time items"
      by (auto simp: py_get_dict split: option.splits)
    with Cons.IH [OF rest] False show ?thesis by simp
  qed
qed

lemma time_value_shape:
  assumes "is_dict b" and "box_info_ok b"
  shows "\<exists>tv. time_value b = Inr tv \<and> (time_absent b \<longrightarrow> tv = PStr ''Unknown'')"
proof (cases "field b ''gameBoxInfo''")
  case None
  with assms(1) show ?thesis
    by (simp add: time_value_def py_get_dict ebind_def time_absent_def)
next
  case (Some info)
  with assms(2) obtain items where i: "info = PList items" and d: "list_all is_dict items"
    by (auto simp: box_info_ok_def split: pyval.splits)
  from assms(1) Some i have "time_value b = first_time items"
    by (simp add: time_value_def py_get_dict ebind_def)
  with first_time_dicts [OF d] Some i show ?thesis
    by (simp add: time_absent_def)
qed

lemma int_like_Inr: "int_like p x \<Longrightarrow> \<exists>i. py_int p x = Inr i"
  by (cases "py_int p x") (simp_all add: int_like_def)

lemma float_like_Inr: "float_like q x \<Longrightarrow> \<exists>r. py_float q x = Inr r"
  by (cases "py_float q x") (simp_all add: float_like_def)

lemma int_chain:
  assumes "leaf_ok (int_like p) b js k"
  shows "\<exists>y i. get_chain b js k (PInt 0) = Inr y \<and> py_int p y = Inr i \<and> (absent b js k \<longrightarrow> i = 0)"
proof -
  have "int_like p (PInt 0)" by (simp add: int_like_def)
  from get_chain_leaf [OF assms this] obtain y where
    y: "get_chain b js k (PInt 0) = Inr y" "int_like p y" "absent b js k \<longrightarrow> y = PInt 0"
    by blast
  from int_like_Inr [OF y(2)] obtain i where "py_int p y = Inr i" ..
  with y show ?thesis by auto
qed

lemma str_chain:
  assumes "leaf_ok any_value b js k"
  shows "\<exists>y. get_chain b js k (PStr ''Unknown'') = Inr y \<and> (absent b js k \<longrightarrow> y = PStr ''Unknown'')"
  using get_chain_leaf [OF assms, of "PStr ''Unknown''"] by (auto simp: any_value_def)

lemma transform_score_shape:
  assumes gid: "p gid = Some g" and shape: "score_shape p b"
  shows "\<exists>r. transform_score p gid b = Inr (PDict r)
    \<and> map_of r ''game_id'' = Some (PInt g)
    \<and> (absent b [''teamInfo'', ''home''] ''id'' \<longrightarrow> map_of r ''home_team_id'' = Some (PInt 0))
    \<and> (absent b [''teamInfo'', ''home''] ''teamName'' \<longrightarrow> map_of r ''home_team'' = Some (PStr ''Unknown''))
    \<and> (absent b [''teamInfo'', ''away''] ''id'' \<longrightarrow> map_of r ''away_team_id'' = Some (PInt 0))
    \<and> (absent b [''teamInfo'', ''away''] ''teamName'' \<longrightarrow> map_of r ''away_team'' = Some (PStr ''Unknown''))
    \<and> (absent b [''home'', ''teamStats'', ''batting''] ''runs'' \<longrightarrow> map_of r ''home_score'' = Some (PInt 0))
    \<and> (absent b [''away'', ''teamStats'', ''batting''] ''runs'' \<longrightarrow> map_of r ''away_score'' = Some (PInt 0))
    \<and> (time_absent b \<longrightarrow> map_of r ''game_time'' = Some (PStr ''Unknown''))"
proof -
  from shape have
    s1: "leaf_ok (int_like p) b [''home'', ''teamStats'', ''batting''] ''runs''" and
    s2: "leaf_ok (int_like p) b [''away'', ''teamStats'', ''batting''] ''runs''" and
    s3: "leaf_ok any_value b [''teamInfo'', ''home''] ''teamName''" and
    s4: "leaf_ok any_value b [''teamInfo'', ''away''] ''teamName''" and
    s5: "leaf_ok (int_like p) b [''teamInfo'', ''home''] ''id''" and
    s6: "leaf_ok (int_like p) b [''teamInfo'', ''away''] ''id''" and
    s7: "box_info_ok b"
    by (simp_all add: score_shape_def)
  from int_chain [OF s1] obtain hs hsi where
    hs: "get_chain b [''home'', ''teamStats'', ''batting''] ''runs'' (PInt 0) = Inr hs"
      "py_int p hs = Inr hsi" "absent b [''home'', ''teamStats'', ''batting''] ''runs'' \<longrightarrow> hsi = 0"
    by blast
  from int_chain [OF s2] obtain as asi where
    as: "get_chain b [''away'', ''teamStats'', ''batting''] ''runs'' (PInt 0) = Inr as"
      "py_int p as = Inr asi" "absent b [''away'', ''teamStats'', ''batting''] ''runs'' \<longrightarrow> asi = 0"
    by blast
  from str_chain [OF s3] obtain hmt where
    hmt: "get_chain b [''teamInfo'', ''home''] ''teamName'' (PStr ''Unknown'') = Inr hmt"
      "absent b [''teamInfo'', ''home''] ''teamName'' \<longrightarrow> hmt = PStr ''Unknown''"
    by blast
  from str_chain [OF s4] obtain awt where
    awt: "get_chain b [''teamInfo'', ''away''] ''teamName'' (PStr ''Unknown'') = Inr awt"
      "absent b [''teamInfo'', ''away''] ''teamName'' \<longrightarrow> awt = PStr ''Unknown''"
    by blast
  from int_chain [OF s5] obtain hid hidi where
    hid: "get_chain b [''teamInfo'', ''home''] ''id'' (PInt 0) = Inr hid"
      "py_int p hid = Inr hidi" "absent b [''teamInfo'', ''home''] ''id'' \<longrightarrow> hidi = 0"
    by blast
  from int_chain [OF s6] obtain aid aidi where
    aid: "get_chain b [''teamInfo'', ''away''] ''id'' (PInt 0) = Inr aid"
      "py_int p aid = Inr aidi" "absent b [''teamInfo'', ''away''] ''id'' \<longrightarrow> aidi = 0"
    by blast
  from time_value_shape [OF leaf_ok_is_dict [OF s1] s7] obtain tv where
    tv: "time_value b = Inr tv" "time_absent b \<longrightarrow> tv = PStr ''Unknown''"
    by blast
  have "transform_score p gid b = Inr (PDict
       [(''game_id'', PInt g),
        (''home_team_id'', PInt hidi),
        (''home_team'', hmt),
        (''away_team_id'', PInt aidi),
        (''away_team'', awt),
        (''home_score'', PInt hsi),
        (''away_score'', PInt asi),
        (''score_differential'', PInt \<bar>hsi - asi\<bar>),
        (''game_time'', tv)])"
    unfolding transform_score_def
    by (simp only: hs(1,2) as(1,2) hmt(1) awt(1) hid(1,2) aid(1,2) tv(1) gid
        ebind_def sum.case py_int.simps option.case)
  with hs(3) as(3) hmt(2) awt(2) hid(3) aid(3) tv(2) show ?thesis
    by simp
qed


lemma py_get_sub: "is_dict v \<Longrightarrow> py_get v j (PDict []) = Inr (sub v j)"
  by (simp add: py_get_dict sub_def)

lemma leaf_get:
  assumes "leaf_ok P b js k" and "reach b js = Some n" and "P d"
  shows "\<exists>y. py_get n k d = Inr y \<and> P y \<and> (absent b js k \<longrightarrow> y = d)"
proof -
  from assms(2) have "get_chain b js k d = py_get n k d"
    by (induction js arbitrary: b) (auto simp: py_get_sub split: if_splits)
  with get_chain_leaf [OF assms(1,3)] show ?thesis by simp
qed

lemma float_leaf:
  assumes "leaf_ok (float_like q) b js k" and "reach b js = Some n"
  shows "\<exists>y r. py_get n k (PFloat 0) = Inr y \<and> py_float q y = Inr r \<and> (absent b js k \<longrightarrow> r = 0)"
proof -
  have "float_like q (PFloat 0)" by (simp add: float_like_def)
  from leaf_get [OF assms this] obtain y where
    y: "py_get n k (PFloat 0) = Inr y" "float_like q y" "absent b js k \<longrightarrow> y = PFloat 0"
    by blast
  from float_like_Inr [OF y(2)] obtain r where "py_float q y = Inr r" ..
  with y show ?thesis by auto
qed

lemma str_leaf:
  assumes "leaf_ok any_value b js k" and "reach b js = Some n"
  shows "\<exists>y. py_get n k (PStr ''Unknown'') = Inr y \<and> (absent b js k \<longrightarrow> y = PStr ''Unknown'')"
  using leaf_get [OF assms, of "PStr ''Unknown''"] by (auto simp: any_value_def)

lemma id_leaf:
  assumes "leaf_ok (id_like p) b js k" and "reach b js = Some n"
  shows "\<exists>vid i. py_get n k PNone = Inr vid
    \<and> (if truthy vid then ebind (py_get n k (PInt 0)) (py_int p) else Inr 0) = Inr i
    \<and> (absent b js k \<longrightarrow> i = 0)"
proof (cases "field n k")
  case None
  from assms(2) have "is_dict n"
    by (induction js arbitrary: b) (auto split: if_splits)
  with None assms(2) show ?thesis by (simp add: py_get_dict)
next
  case (Some x)
  from assms(2) have d: "is_dict n"
    by (induction js arbitrary: b) (auto split: if_splits)
  from assms Some have "id_like p x" by (simp add: leaf_ok_def)
  then consider "\<not> truthy x" | i where "truthy x" "py_int p x = Inr i"
    by (auto simp: id_like_def dest: int_like_Inr)
  then show ?thesis
  proof cases
    case 1
    with d Some assms(2) show ?thesis by (simp add: py_get_dict absent_def)
  next
    case 2
    with d Some assms(2) show ?thesis by (simp add: py_get_dict absent_def ebind_def)
  qed
qed

lemma transform_location_shape:
  assumes gid: "p gid = Some g" and shape: "location_shape p q game"
  shows "\<exists>r. transform_location p q gid game = Inr (PDict r)
    \<and> map_of r ''game_id'' = Some (PInt g)
    \<and> (absent game [''gameData'', ''venue''] ''id'' \<longrightarrow> map_of r ''venue_id'' = Some (PInt 0))
    \<and> (absent game [''gameData'', ''venue''] ''name'' \<longrightarrow> map_of r ''venue_name'' = Some (PStr ''Unknown''))
    \<and> (absent game [''gameData'', ''venue'', ''location''] ''city''
          \<longrightarrow> map_of r ''venue_city'' = Some (PStr ''Unknown''))
    \<and> (absent game [''gameData'', ''venue'', ''location''] ''state''
          \<longrightarrow> map_of r ''venue_state'' = Some (PStr ''Unknown''))
    \<and> (absent game [''gameData'', ''venue'', ''location''] ''postalCode''
          \<longrightarrow> map_of r ''venue_postal_code'' = Some (PStr ''Unknown''))
    \<and> (absent game [''gameData'', ''venue'', ''location''] ''country''
          \<longrightarrow> map_of r ''venue_country'' = Some (PStr ''Unknown''))
    \<and> (absent game [''gameData'', ''venue'', ''location'', ''defaultCoordinates''] ''latitude''
          \<longrightarrow> map_of r ''venue_latitude'' = Some (PFloat 0))
    \<and> (absent game [''gameData'', ''venue'', ''location'', ''defaultCoordinates''] ''longitude''
          \<longrightarrow> map_of r ''venue_longitude'' = Some (PFloat 0))
    \<and> (absent game [''gameData'', ''venue'', ''location''] ''elevation''
          \<longrightarrow> map_of r ''venue_elevation'' = Some (PFloat 0))"
proof -
  define game_data where "game_data = sub game ''gameData''"
  define venue where "venue = sub game_data ''venue''"
  define location where "location = sub venue ''location''"
  define coords where "coords = sub location ''defaultCoordinates''"
  from shape have
    s1: "leaf_ok (id_like p) game [''gameData'', ''venue''] ''id''" and
    s2: "leaf_ok any_value game [''gameData'', ''venue''] ''name''" and
    s3: "leaf_ok any_value game [''gameData'', ''venue'', ''location''] ''city''" and
    s4: "leaf_ok any_value game [''gameData'', ''venue'', ''location''] ''state''" and
    s5: "leaf_ok any_value game [''gameData'', ''venue'', ''location''] ''postalCode''" and
    s6: "leaf_ok any_value game [''gameData'', ''venue'', ''location''] ''country''" and
    s7: "leaf_ok (float_like q) game [''gameData'', ''venue'', ''location'', ''defaultCoordinates''] ''latitude''" and
    s8: "leaf_ok (float_like q) game [''gameData'', ''venue'', ''location'', ''defaultCoordinates''] ''longitude''" and
    s9: "leaf_ok (float_like q) game [''gameData'', ''venue'', ''location''] ''elevation''"
    by (simp_all add: location_shape_def)
  from s7 have dicts: "is_dict game" "is_dict game_data" "is_dict venue" "is_dict location"
    and rc: "reach game [''gameData'', ''venue'', ''location'', ''defaultCoordinates''] = Some coords"
    by (simp_all add: leaf_ok_def game_data_def venue_def location_def coords_def
        split: option.splits if_splits)
  from dicts have rv: "reach game [''gameData'', ''venue''] = Some venue"
    and rl: "reach game [''gameData'', ''venue'', ''location''] = Some location"
    by (simp_all add: game_data_def venue_def location_def)
  from dicts have g1: "py_get game ''gameData'' (PDict []) = Inr game_data"
    and g2: "py_get game_data ''venue'' (PDict []) = Inr venue"
    and g3: "py_get venue ''location'' (PDict []) = Inr location"
    and g4: "py_get location ''defaultCoordinates'' (PDict []) = Inr coords"
    by (simp_all add: py_get_sub game_data_def venue_def location_def coords_def)
  from id_leaf [OF s1 rv] obtain vid vi where
    vi: "py_get venue ''id'' PNone = Inr vid"
      "(if truthy vid then ebind (py_get venue ''id'' (PInt 0)) (py_int p) else Inr 0) = Inr vi"
      "absent game [''gameData'', ''venue''] ''id'' \<longrightarrow> vi = 0"
    by blast
  from str_leaf [OF s2 rv] obtain name where
    name: "py_get venue ''name'' (PStr ''Unknown'') = Inr name"
      "absent game [''gameData'', ''venue''] ''name'' \<longrightarrow> name = PStr ''Unknown''"
    by blast
  from str_leaf [OF s3 rl] obtain city where
    city: "py_get location ''city'' (PStr ''Unknown'') = Inr city"
      "absent game [''gameData'', ''venue'', ''location''] ''city'' \<longrightarrow> city = PStr ''Unknown''"
    by blast
  from str_leaf [OF s4 rl] obtain state where
    state: "py_get location ''state'' (PStr ''Unknown'') = Inr state"
      "absent game [''gameData'', ''venue'', ''location''] ''state'' \<longrightarrow> state = PStr ''Unknown''"
    by blast
  from str_leaf [OF s5 rl] obtain postal where
    postal: "py_get location ''postalCode'' (PStr ''Unknown'') = Inr postal"
      "absent game [''gameData'', ''venue'', ''location''] ''postalCode'' \<longrightarrow> postal = PStr ''Unknown''"
    by blast
  from str_leaf [OF s6 rl] obtain country where
    country: "py_get location ''country'' (PStr ''Unknown'') = Inr country"
      "absent game [''gameData'', ''venue'', ''location''] ''country'' \<longrightarrow> country = PStr ''Unknown''"
    by blast
  from float_leaf [OF s7 rc] obtain latv lat where
    lat: "py_get coords ''latitude'' (PFloat 0) = Inr latv" "py_float q latv = Inr lat"
      "absent game [''gameData'', ''venue'', ''location'', ''defaultCoordinates''] ''latitude'' \<longrightarrow> lat = 0"
    by blast
  from float_leaf [OF s8 rc] obtain lonv lon where
    lon: "py_get coords ''longitude'' (PFloat 0) = Inr lonv" "py_float q lonv = Inr lon"
      "absent game [''gameData'', ''venue'', ''location'', ''defaultCoordinates''] ''longitude'' \<longrightarrow> lon = 0"
    by blast
  from float_leaf [OF s9 rl] obtain elevv elev where
    elev: "py_get location ''elevation'' (PFloat 0) = Inr elevv" "py_float q elevv = Inr elev"
      "absent game [''gameData'', ''venue'', ''location''] ''elevation'' \<longrightarrow> elev = 0"
    by blast
  have "transform_location p q gid game = Inr (PDict
       [(''game_id'', PInt g),
        (''venue_id'', PInt vi),
        (''venue_name'', name),
        (''venue_city'', city),
        (''venue_state'', state),
        (''venue_postal_code'', postal),
        (''venue_country'', country),
        (''venue_latitude'', PFloat lat),
        (''venue_longitude'', PFloat lon),
        (''venue_elevation'', PFloat elev)])"
    unfolding transform_location_def
    by (simp only: g1 g2 g3 g4 vi(1) vi(2) [unfolded ebind_def] name(1) city(1) state(1) postal(1) country(1)
        lat(1,2) lon(1,2) elev(1,2) gid ebind_def sum.case py_int.simps option.case)
  with vi(3) name(2) city(2) state(2) postal(2) country(2) lat(3) lon(3) elev(3) show ?thesis
    by simp
qed


text \<open>
  Claim C4, as the code has it. For a game identifier that reads as a number and a payload
  whose present fields have the expected shape, both transformers return a record, and
  each field that is absent from the payload has its default in it: \<open>"Unknown"\<close> for the
  names, 0 for the identifiers and the scores, 0.0 for latitude, longitude and elevation.
\<close>

theorem missing_fields_defaulted:
  "(p gid = Some g \<and> score_shape p b \<longrightarrow>
      (\<exists>r. transform_score p gid b = Inr (PDict r)
        \<and> map_of r ''game_id'' = Some (PInt g)
        \<and> (absent b [''teamInfo'', ''home''] ''id'' \<longrightarrow> map_of r ''home_team_id'' = Some (PInt 0))
        \<and> (absent b [''teamInfo'', ''home''] ''teamName''
              \<longrightarrow> map_of r ''home_team'' = Some (PStr ''Unknown''))
        \<and> (absent b [''teamInfo'', ''away''] ''id'' \<longrightarrow> map_of r ''away_team_id'' = Some (PInt 0))
        \<and> (absent b [''teamInfo'', ''away''] ''teamName''
              \<longrightarrow> map_of r ''away_team'' = Some (PStr ''Unknown''))
        \<and> (absent b [''home'', ''teamStats'', ''batting''] ''runs''
              \<longrightarrow> map_of r ''home_score'' = Some (PInt 0))
        \<and> (absent b [''away'', ''teamStats'', ''batting''] ''runs''
              \<longrightarrow> map_of r ''away_score'' = Some (PInt 0))
        \<and> (time_absent b \<longrightarrow> map_of r ''game_time'' = Some (PStr ''Unknown''))))
   \<and> (p gid = Some g \<and> location_shape p q game \<longrightarrow>
      (\<exists>r. transform_location p q gid game = Inr (PDict r)
        \<and> map_of r ''game_id'' = Some (PInt g)
        \<and> (absent game [''gameData'', ''venue''] ''id'' \<longrightarrow> map_of r ''venue_id'' = Some (PInt 0))
        \<and> (absent game [''gameData'', ''venue''] ''name''
              \<longrightarrow> map_of r ''venue_name'' = Some (PStr ''Unknown''))
        \<and> (absent game [''gameData'', ''venue'', ''location''] ''city''
              \<longrightarrow> map_of r ''venue_city'' = Some (PStr ''Unknown''))
        \<and> (absent game [''gameData'', ''venue'', ''location''] ''state''
              \<longrightarrow> map_of r ''venue_state'' = Some (PStr ''Unknown''))
        \<and> (absent game [''gameData'', ''venue'', ''location''] ''postalCode''
              \<longrightarrow> map_of r ''venue_postal_code'' = Some (PStr ''Unknown''))
        \<and> (absent game [''gameData'', ''venue'', ''location''] ''country''
              \<longrightarrow> map_of r ''venue_country'' = Some (PStr ''Unknown''))
        \<and> (absent game [''gameData'', ''venue'', ''location'', ''defaultCoordinates''] ''latitude''
              \<longrightarrow> map_of r ''venue_latitude'' = Some (PFloat 0))
        \<and> (absent game [''gameData'', ''venue'', ''location'', ''defaultCoordinates''] ''longitude''
              \<longrightarrow> map_of r ''venue_longitude'' = Some (PFloat 0))
        \<and> (absent game [''gameData'', ''venue'', ''location''] ''elevation''
              \<longrightarrow> map_of r ''venue_elevation'' = Some (PFloat 0))))"
proof (intro conjI impI)
  assume "p gid = Some g \<and> score_shape p b"
  then have "p gid = Some g" and "score_shape p b" by simp_all
  then show "\<exists>r. transform_score p gid b = Inr (PDict r)
        \<and> map_of r ''game_id'' = Some (PInt g)
        \<and> (absent b [''teamInfo'', ''home''] ''id'' \<longrightarrow> map_of r ''home_team_id'' = Some (PInt 0))
        \<and> (absent b [''teamInfo'', ''home''] ''teamName''
              \<longrightarrow> map_of r ''home_team'' = Some (PStr ''Unknown''))
        \<and> (absent b [''teamInfo'', ''away''] ''id'' \<longrightarrow> map_of r ''away_team_id'' = Some (PInt 0))
        \<and> (absent b [''teamInfo'', ''away''] ''teamName''
              \<longrightarrow> map_of r ''away_team'' = Some (PStr ''Unknown''))
        \<and> (absent b [''home'', ''teamStats'', ''batting''] ''runs''
              \<longrightarrow> map_of r ''home_score'' = Some (PInt 0))
        \<and> (absent b [''away'', ''teamStats'', ''batting''] ''runs''
              \<longrightarrow> map_of r ''away_score'' = Some (PInt 0))
        \<and> (time_absent b \<longrightarrow> map_of r ''game_time'' = Some (PStr ''Unknown''))"
    by (rule transform_score_shape)
next
  assume "p gid = Some g \<and> location_shape p q game"
  then have "p gid = Some g" and "location_shape p q game" by simp_all
  then show "\<exists>r. transform_location p q gid game = Inr (PDict r)
        \<and> map_of r ''game_id'' = Some (PInt g)
        \<and> (absent game [''gameData'', ''venue''] ''id'' \<longrightarrow> map_of r ''venue_id'' = Some (PInt 0))
        \<and> (absent game [''gameData'', ''venue''] ''name''
              \<longrightarrow> map_of r ''venue_name'' = Some (PStr ''Unknown''))
        \<and> (absent game [''gameData'', ''venue'', ''location''] ''city''
              \<longrightarrow> map_of r ''venue_city'' = Some (PStr ''Unknown''))
        \<and> (absent game [''gameData'', ''venue'', ''location''] ''state''
              \<longrightarrow> map_of r ''venue_state'' = Some (PStr ''Unknown''))
        \<and> (absent game [''gameData'', ''venue'', ''location''] ''postalCode''
              \<longrightarrow> map_of r ''venue_postal_code'' = Some (PStr ''Unknown''))
        \<and> (absent game [''gameData'', ''venue'', ''location''] ''country''
              \<longrightarrow> map_of r ''venue_country'' = Some (PStr ''Unknown''))
        \<and> (absent game [''gameData'', ''venue'', ''location'', ''defaultCoordinates''] ''latitude''
              \<longrightarrow> map_of r ''venue_latitude'' = Some (PFloat 0))
        \<and> (absent game [''gameData'', ''venue'', ''location'', ''defaultCoordinates''] ''longitude''
              \<longrightarrow> map_of r ''venue_longitude'' = Some (PFloat 0))
        \<and> (absent game [''gameData'', ''venue'', ''location''] ''elevation''
              \<longrightarrow> map_of r ''venue_elevation'' = Some (PFloat 0))"
    by (rule transform_location_shape)
qed

theorem missing_fields_defaulted_witness:
  "(\<exists>r. transform_score (str_to_int calm_env) ''1'' (sample_boxscore 5 3) = Inr (PDict r)
      \<and> map_of r ''game_id'' = Some (PInt 1)
      \<and> map_of r ''away_team_id'' = Some (PInt 0)
      \<and> map_of r ''away_team'' = Some (PStr ''Unknown'')
      \<and> map_of r ''game_time'' = Some (PStr ''Unknown''))
   \<and> (\<exists>r. transform_location (str_to_int calm_env) (str_to_float calm_env) ''1'' sample_game = Inr (PDict r)
      \<and> map_of r ''game_id'' = Some (PInt 1)
      \<and> map_of r ''venue_city'' = Some (PStr ''Unknown'')
      \<and> map_of r ''venue_state'' = Some (PStr ''Unknown'')
      \<and> map_of r ''venue_postal_code'' = Some (PStr ''Unknown'')
      \<and> map_of r ''venue_country'' = Some (PStr ''Unknown'')
      \<and> map_of r ''venue_latitude'' = Some (PFloat 0)
      \<and> map_of r ''venue_longitude'' = Some (PFloat 0)
      \<and> map_of r ''venue_elevation'' = Some (PFloat 0))"
proof -
  let ?p = "str_to_int calm_env" and ?q = "str_to_float calm_env"
  have gid: "?p ''1'' = Some 1" by (simp add: calm_env_def)
  have ss: "score_shape ?p (sample_boxscore 5 3)"
    by (simp add: score_shape_def leaf_ok_def sub_def int_like_def any_value_def box_info_ok_def
        sample_boxscore_def)
  have ls: "location_shape ?p ?q sample_game"
    by (simp add: location_shape_def leaf_ok_def sub_def int_like_def id_like_def any_value_def
        float_like_def sample_game_def)
  have sa: "absent (sample_boxscore 5 3) [''teamInfo'', ''away''] ''id''"
    "absent (sample_boxscore 5 3) [''teamInfo'', ''away''] ''teamName''"
    "time_absent (sample_boxscore 5 3)"
    by (simp_all add: absent_def time_absent_def sub_def sample_boxscore_def)
  have la: "absent sample_game [''gameData'', ''venue'', ''location''] ''city''"
    "absent sample_game [''gameData'', ''venue'', ''location''] ''state''"
    "absent sample_game [''gameData'', ''venue'', ''location''] ''postalCode''"
    "absent sample_game [''gameData'', ''venue'', ''location''] ''country''"
    "absent sample_game [''gameData'', ''venue'', ''location'', ''defaultCoordinates''] ''latitude''"
    "absent sample_game [''gameData'', ''venue'', ''location'', ''defaultCoordinates''] ''longitude''"
    "absent sample_game [''gameData'', ''venue'', ''location''] ''elevation''"
    by (simp_all add: absent_def sub_def sample_game_def)
  from gid ss ls sa la
    missing_fields_defaulted [of ?p "''1''" 1 "sample_boxscore 5 3" ?q sample_game]
  show ?thesis by blast
qed

theorem never_raises_counterexample:
  "transform_score (str_to_int calm_env) ''1'' (PDict [(''home'', PNone)]) = Inl AttributeError
   \<and> transform_location (str_to_int calm_env) (str_to_float calm_env) ''1''
       (PDict [(''gameData'', PDict [(''venue'', PDict [(''location'',
          PDict [(''elevation'', PNone)])])])]) = Inl TypeError"
  by (simp add: transform_score_def transform_location_def ebind_def calm_env_def)

end
